theory Spec2Isabelle
  imports Complex_Main "HOL-Library.Char_ord" "HOL-Library.List_Lexorder"
begin

section \<open>CAPE dataset utilities (dataset_utils.py)\<close>

text \<open>
  The program is one Python class, \<^verbatim>\<open>CAPE_utils\<close>, whose methods read numpy archives,
  subtract vertex arrays and write meshes. The numpy and operating-system calls it makes
  are modelled here as far as the methods observe them; every exception a call can raise
  is a value of the type \<open>error\<close>, and a method returns \<open>error + result\<close>.
\<close>

subsection \<open>Python exceptions\<close>

datatype error =
    FileNotFoundError
  | IsADirectoryError
  | NotADirectoryError
  | FileExistsError
  | KeyError string
  | NameError string
  | ModuleNotFoundError string
  | IndexError
  | ValueError
  | TypeError
  | AssertionError
  | UnpicklingError
  | SerializationError

subsection \<open>numpy arrays\<close>

text \<open>
  An \<^verbatim>\<open>ndarray\<close> is its shape and its elements in row-major (C) order. An N\<times>3 vertex
  array has shape \<open>[N, 3]\<close>, and its vertex count is the first entry of the shape.
\<close>

record 'a ndarray =
  shape :: "nat list"
  elems :: "'a list"

definition wf_array :: "'a ndarray \<Rightarrow> bool" where
  "wf_array a = (length (elems a) = prod_list (shape a))"

text \<open>
  Broadcasting of two shapes, as numpy does it: the shapes are aligned at their last
  axis; two extents are compatible when they are equal or one of them is 1. The function
  works on the reversed shapes.
\<close>

fun bshape_rev :: "nat list \<Rightarrow> nat list \<Rightarrow> nat list option" where
  "bshape_rev [] ys = Some ys"
| "bshape_rev (x # xs) [] = Some (x # xs)"
| "bshape_rev (x # xs) (y # ys) =
     (if x = y \<or> y = 1 then map_option ((#) x) (bshape_rev xs ys)
      else if x = 1 then map_option ((#) y) (bshape_rev xs ys)
      else None)"

definition broadcast_shapes :: "nat list \<Rightarrow> nat list \<Rightarrow> nat list option" where
  "broadcast_shapes s t = map_option rev (bshape_rev (rev s) (rev t))"

text \<open>\<open>chop n k d\<close> cuts \<open>d\<close> into \<open>k\<close> consecutive blocks of \<open>n\<close> elements.\<close>

fun chop :: "nat \<Rightarrow> nat \<Rightarrow> 'a list \<Rightarrow> 'a list list" where
  "chop n 0 d = []"
| "chop n (Suc k) d = take n d # chop n k (drop n d)"

text \<open>
  \<open>expand s t d\<close> lays the elements \<open>d\<close> of an array of shape \<open>s\<close> out in the shape
  \<open>t\<close> it is broadcast to (\<open>s\<close> and \<open>t\<close> of the same length): an axis of the same
  extent is kept block by block, an axis of extent 1 is repeated.
\<close>

fun expand :: "nat list \<Rightarrow> nat list \<Rightarrow> 'a list \<Rightarrow> 'a list" where
  "expand (s # ss) (t # ts) d =
     (if s = t then concat (map (expand ss ts) (chop (prod_list ss) s d))
      else concat (replicate t (expand ss ts d)))"
| "expand ss ts d = d"

definition pad_shape :: "nat \<Rightarrow> nat list \<Rightarrow> nat list" where
  "pad_shape n s = replicate (n - length s) 1 @ s"

definition broadcast_to :: "'a ndarray \<Rightarrow> nat list \<Rightarrow> 'a list" where
  "broadcast_to a t = expand (pad_shape (length t) (shape a)) t (elems a)"

text \<open>
  A binary ufunc: the operands are broadcast to the common shape and combined element
  by element; shapes that do not broadcast raise \<^verbatim>\<open>ValueError\<close> ("operands could not be
  broadcast together").
\<close>

definition np_binop :: "('a \<Rightarrow> 'a \<Rightarrow> 'a) \<Rightarrow> 'a ndarray \<Rightarrow> 'a ndarray \<Rightarrow> error + 'a ndarray" where
  "np_binop f a b =
     (case broadcast_shapes (shape a) (shape b) of
        None \<Rightarrow> Inl ValueError
      | Some t \<Rightarrow> Inr \<lparr>shape = t, elems = map2 f (broadcast_to a t) (broadcast_to b t)\<rparr>)"

definition np_subtract :: "'a::minus ndarray \<Rightarrow> 'a ndarray \<Rightarrow> error + 'a ndarray" where
  "np_subtract a b = np_binop (-) a b"

definition np_add :: "'a::plus ndarray \<Rightarrow> 'a ndarray \<Rightarrow> error + 'a ndarray" where
  "np_add a b = np_binop (+) a b"


subsection \<open>numpy's float64\<close>

text \<open>
  The arrays of a frame hold binary floating-point numbers, whose subtraction and
  addition round. A \<^verbatim>\<open>float64\<close> (IEEE 754 binary64, numpy's default) is a finite value, an
  infinity (\<open>True\<close> for the positive one) or NaN; a finite value is the rational number it
  denotes, and the two zeros are one value. The result of an operation on finite values
  is the exact result rounded to 53 significant bits, ties to even, with exponents from
  -1022 (below that the spacing stays at \<open>2 ^ -1074\<close>); a rounded magnitude of \<open>2 ^ 1024\<close> or
  more is an infinity.
\<close>

datatype f64 = Finite rat | Infinity bool | NaN

function bit_length :: "int \<Rightarrow> int" where
  "bit_length n = (if n \<le> 0 then 0 else 1 + bit_length (n div 2))"
  by pat_completeness auto
termination
  by (relation "measure nat") auto

declare bit_length.simps [simp del]

text \<open>For \<open>q > 0\<close>, \<open>ilog2 q\<close> is the integer \<open>k\<close> with \<open>2 ^ k \<le> q < 2 ^ (k + 1)\<close>.\<close>

definition ilog2 :: "rat \<Rightarrow> int" where
  "ilog2 q = (if 1 \<le> q then bit_length \<lfloor>q\<rfloor> - 1 else - bit_length (\<lceil>1 / q\<rceil> - 1))"

definition pow2 :: "int \<Rightarrow> rat" where
  "pow2 k = (if 0 \<le> k then 2 ^ nat k else 1 / 2 ^ nat (- k))"

text \<open>The nearest integer, the even one in a tie.\<close>

definition rne :: "rat \<Rightarrow> int" where
  "rne q = (if q - of_int \<lfloor>q\<rfloor> < 1 / 2 then \<lfloor>q\<rfloor>
            else if 1 / 2 < q - of_int \<lfloor>q\<rfloor> then \<lfloor>q\<rfloor> + 1
            else if even \<lfloor>q\<rfloor> then \<lfloor>q\<rfloor> else \<lfloor>q\<rfloor> + 1)"

definition round64 :: "rat \<Rightarrow> rat" where
  "round64 q =
     (if q = 0 then 0
      else of_int (rne (q / pow2 (max (ilog2 \<bar>q\<bar>) (- 1022) - 52))) *
             pow2 (max (ilog2 \<bar>q\<bar>) (- 1022) - 52))"

definition f64_of :: "rat \<Rightarrow> f64" where
  "f64_of q = (if 2 ^ 1024 \<le> \<bar>round64 q\<bar> then Infinity (0 < q) else Finite (round64 q))"

fun f64_add :: "f64 \<Rightarrow> f64 \<Rightarrow> f64" where
  "f64_add (Finite x) (Finite y) = f64_of (x + y)"
| "f64_add (Finite x) (Infinity t) = Infinity t"
| "f64_add (Infinity s) (Finite y) = Infinity s"
| "f64_add (Infinity s) (Infinity t) = (if s = t then Infinity s else NaN)"
| "f64_add x y = NaN"

fun f64_sub :: "f64 \<Rightarrow> f64 \<Rightarrow> f64" where
  "f64_sub (Finite x) (Finite y) = f64_of (x - y)"
| "f64_sub (Finite x) (Infinity t) = Infinity (\<not> t)"
| "f64_sub (Infinity s) (Finite y) = Infinity s"
| "f64_sub (Infinity s) (Infinity t) = (if s = t then NaN else Infinity s)"
| "f64_sub x y = NaN"

instantiation f64 :: "{plus, minus}"
begin

definition plus_f64 :: "f64 \<Rightarrow> f64 \<Rightarrow> f64" where
  "plus_f64 x y = f64_add x y"

definition minus_f64 :: "f64 \<Rightarrow> f64 \<Rightarrow> f64" where
  "minus_f64 x y = f64_sub x y"

instance ..

end

text \<open>A finite \<^verbatim>\<open>float64\<close> value, and a pair of them whose difference is itself such a value,
  so that the subtraction does not round.\<close>

definition representable :: "f64 \<Rightarrow> bool" where
  "representable x = (case x of Finite p \<Rightarrow> round64 p = p \<and> \<bar>p\<bar> < 2 ^ 1024 | _ \<Rightarrow> False)"

definition exact_difference :: "f64 \<Rightarrow> f64 \<Rightarrow> bool" where
  "exact_difference x y =
     (case x of
        Finite p \<Rightarrow>
          (case y of Finite q \<Rightarrow> round64 (p - q) = p - q \<and> \<bar>p - q\<bar> < 2 ^ 1024 | _ \<Rightarrow> False)
      | _ \<Rightarrow> False)"

text \<open>The \<^verbatim>\<open>float64\<close> values nearest to 0.1 and to 0.4, and what the processor computes from
  them: 0.1 - 0.4 is -0.30000000000000004, and adding 0.4 to that is 0.09999999999999998.\<close>

definition example_tenth :: rat where
  "example_tenth = 3602879701896397 / 2 ^ 55"

definition example_four_tenths :: rat where
  "example_four_tenths = 3602879701896397 / 2 ^ 53"

definition example_difference :: rat where
  "example_difference = - (5404319552844596 / 2 ^ 54)"

definition example_sum :: rat where
  "example_sum = 1801439850948198 / 2 ^ 54"

text \<open>Other numpy operations the methods use: division by a scalar (\<^verbatim>\<open>a / 1000.\<close>)
  and the Euclidean norm along the last axis (\<^verbatim>\<open>np.linalg.norm(a, axis=-1)\<close>), which
  raises on a zero-dimensional array.\<close>

definition np_true_divide :: "real ndarray \<Rightarrow> real \<Rightarrow> real ndarray" where
  "np_true_divide a c = \<lparr>shape = shape a, elems = map (\<lambda>x. x / c) (elems a)\<rparr>"

definition np_linalg_norm :: "real ndarray \<Rightarrow> error + real ndarray" where
  "np_linalg_norm a =
     (if shape a = [] then Inl ValueError
      else Inr \<lparr>shape = butlast (shape a),
                elems = map (\<lambda>row. sqrt (\<Sum>x\<leftarrow>row. x * x))
                          (chop (last (shape a)) (prod_list (butlast (shape a))) (elems a))\<rparr>)"

subsection \<open>Python strings and \<^verbatim>\<open>os.path\<close>\<close>

type_synonym path = string

definition startswith :: "string \<Rightarrow> string \<Rightarrow> bool" where
  "startswith s pre = (take (length pre) s = pre)"

definition endswith :: "string \<Rightarrow> string \<Rightarrow> bool" where
  "endswith s suf = (length suf \<le> length s \<and> drop (length s - length suf) s = suf)"

text \<open>
  \<^verbatim>\<open>posixpath.join(a, *p)\<close>: an absolute component discards what came before it; otherwise
  components are joined with one separator.
\<close>

definition join2 :: "path \<Rightarrow> string \<Rightarrow> path" where
  "join2 p b =
     (if startswith b ''/'' then b
      else if p = [] \<or> endswith p ''/'' then p @ b
      else p @ ''/'' @ b)"

definition join :: "path \<Rightarrow> string list \<Rightarrow> path" where
  "join a ps = foldl join2 a ps"

text \<open>
  \<^verbatim>\<open>posixpath.split(p)\<close>: the tail is what follows the last separator; the head is what
  precedes it, without trailing separators unless it consists of separators only.
\<close>

definition path_split :: "path \<Rightarrow> path \<times> string" where
  "path_split p =
     (let tail = rev (takeWhile (\<lambda>c. c \<noteq> CHR ''/'') (rev p));
          head = take (length p - length tail) p
      in (if head \<noteq> [] \<and> \<not> list_all (\<lambda>c. c = CHR ''/'') head
          then rev (dropWhile (\<lambda>c. c = CHR ''/'') (rev head)) else head,
          tail))"

definition dirname :: "path \<Rightarrow> path" where
  "dirname p = fst (path_split p)"

definition basename :: "path \<Rightarrow> string" where
  "basename p = snd (path_split p)"

text \<open>\<^verbatim>\<open>s.replace(old, new)\<close> for a non-empty \<open>old\<close>: every occurrence, left to right,
  without overlap. The counter is the number of characters of a match still to skip.\<close>

fun replace_from :: "string \<Rightarrow> string \<Rightarrow> nat \<Rightarrow> string \<Rightarrow> string" where
  "replace_from old new k [] = []"
| "replace_from old new (Suc k) (c # cs) = replace_from old new k cs"
| "replace_from old new 0 (c # cs) =
     (if take (length old) (c # cs) = old then new @ replace_from old new (length old - 1) cs
      else c # replace_from old new 0 cs)"

definition str_replace :: "string \<Rightarrow> string \<Rightarrow> string \<Rightarrow> string" where
  "str_replace s old new = replace_from old new 0 s"

text \<open>\<^verbatim>\<open>'{:0>2d}'.format(i)\<close>: the decimal digits of \<open>i\<close>, padded with zeros on the left to
  two characters.\<close>

definition digit :: "nat \<Rightarrow> char" where
  "digit n = ''0123456789'' ! n"

function str_nat :: "nat \<Rightarrow> string" where
  "str_nat n = (if n < 10 then [digit n] else str_nat (n div 10) @ [digit (n mod 10)])"
  by pat_completeness auto
termination
  by (relation "measure id") auto

declare str_nat.simps [simp del]

definition format_02d :: "nat \<Rightarrow> string" where
  "format_02d i = replicate (2 - length (str_nat i)) CHR ''0'' @ str_nat i"

text \<open>\<^verbatim>\<open>fnmatch\<close> for patterns of literal characters, \<^verbatim>\<open>*\<close> and \<^verbatim>\<open>?\<close> (the program's
  patterns are \<^verbatim>\<open>*.npz\<close> and \<^verbatim>\<open>*.ply\<close>).\<close>

fun fnmatch :: "string \<Rightarrow> string \<Rightarrow> bool" where
  "fnmatch [] [] = True"
| "fnmatch [] (c # cs) = False"
| "fnmatch (p # ps) [] = (p = CHR ''*'' \<and> fnmatch ps [])"
| "fnmatch (p # ps) (c # cs) =
     (if p = CHR ''*'' then fnmatch ps (c # cs) \<or> fnmatch (p # ps) cs
      else (p = CHR ''?'' \<or> p = c) \<and> fnmatch ps cs)"

subsection \<open>Meshes, files and the world outside the program\<close>

type_synonym array = "real ndarray"

text \<open>What \<^verbatim>\<open>np.load\<close> returns: an array (from a .npy file) or an archive of named
  arrays (from a .npz file).\<close>

datatype npval = Arr array | NpzFile "string \<Rightarrow> array option"

datatype vcolour = Colour array | Weights array

text \<open>A mesh of the mesh library: vertices, faces and the vertex colours set on it.\<close>

record mesh =
  mesh_v :: array
  mesh_f :: npval
  mesh_vc :: "vcolour option"

datatype content =
    Npy array
  | Npz "string \<Rightarrow> array option"
  | Pkl "string \<Rightarrow> string option"
  | Ply mesh
  | Obj mesh
  | Other

datatype node = File content | Dir "string list"

text \<open>
  The operating system resolves a path string to its components; the file system maps
  resolved paths to nodes. A directory node carries the names the system lists for it,
  in the system's order. (\<^verbatim>\<open>..\<close> components and symbolic links are not resolved.)
\<close>

type_synonym key = "bool \<times> string list"
type_synonym fs = "key \<Rightarrow> node option"

fun split_sep :: "string \<Rightarrow> string list" where
  "split_sep [] = [[]]"
| "split_sep (c # cs) =
     (if c = CHR ''/'' then [] # split_sep cs
      else (case split_sep cs of [] \<Rightarrow> [[c]] | w # ws \<Rightarrow> (c # w) # ws))"

definition resolve :: "path \<Rightarrow> key" where
  "resolve p = (startswith p ''/'', filter (\<lambda>c. c \<noteq> [] \<and> c \<noteq> ''.'') (split_sep p))"

text \<open>
  The world a method runs in: the file system, the modules that can be imported, the
  binding of the module-level name \<^verbatim>\<open>dataset_dir\<close> (bound only by the script's entry
  point, lines 193 to 197), what \<^verbatim>\<open>np.random.permutation\<close> draws, and the meshes the
  mesh libraries have written, each with the file name it was given, oldest first.
\<close>

record world =
  files :: fs
  modules :: "string list"
  module_dataset_dir :: "string option"
  permutation :: "nat \<Rightarrow> nat list"
  exported :: "(path \<times> mesh) list"

subsection \<open>Operating-system and library calls\<close>

definition exists :: "world \<Rightarrow> path \<Rightarrow> bool" where
  "exists w p = (files w (resolve p) \<noteq> None)"

definition os_listdir :: "world \<Rightarrow> path \<Rightarrow> error + string list" where
  "os_listdir w p =
     (case files w (resolve p) of
        None \<Rightarrow> Inl FileNotFoundError
      | Some (File c) \<Rightarrow> Inl NotADirectoryError
      | Some (Dir names) \<Rightarrow> Inr names)"

text \<open>
  \<^verbatim>\<open>glob(pathname)\<close> for a pathname whose directory part has no wildcard: the names of
  that directory which match the last component, each joined to the directory part. A
  directory that cannot be listed gives no match, and a name starting with a dot is
  matched only by a pattern that starts with a dot.
\<close>

definition glob :: "world \<Rightarrow> string \<Rightarrow> path list" where
  "glob w pathname =
     (case files w (resolve (dirname pathname)) of
        Some (Dir names) \<Rightarrow>
          [join (dirname pathname) [n]. n \<leftarrow> names,
             startswith (basename pathname) ''.'' \<or> \<not> startswith n ''.'',
             fnmatch (basename pathname) n]
      | _ \<Rightarrow> [])"

text \<open>\<^verbatim>\<open>os.mkdir\<close>: the directory must not exist and its parent must be a directory.\<close>

definition mkdir :: "fs \<Rightarrow> bool \<Rightarrow> string list \<Rightarrow> error + fs" where
  "mkdir fs ab comps =
     (if comps = [] \<or> fs (ab, comps) \<noteq> None then Inl FileExistsError
      else case fs (ab, butlast comps) of
        None \<Rightarrow> Inl FileNotFoundError
      | Some (File c) \<Rightarrow> Inl NotADirectoryError
      | Some (Dir names) \<Rightarrow>
          Inr ((fs((ab, butlast comps) \<mapsto>
                    Dir (if last comps \<in> set names then names else names @ [last comps])))
                 ((ab, comps) \<mapsto> Dir [])))"

text \<open>
  \<^verbatim>\<open>os.makedirs(name, exist_ok=...)\<close>: the missing directories on the way to \<open>name\<close> are
  made, outermost first. A regular file at \<open>name\<close> raises \<^verbatim>\<open>FileExistsError\<close>, and so
  does a directory there unless \<open>exist_ok\<close>; a regular file on the way makes the next
  \<^verbatim>\<open>mkdir\<close> raise \<^verbatim>\<open>NotADirectoryError\<close>.
\<close>

fun makedirs_from :: "fs \<Rightarrow> bool \<Rightarrow> bool \<Rightarrow> string list \<Rightarrow> string list \<Rightarrow> error + fs" where
  "makedirs_from fs exist_ok ab pre [] = Inr fs"
| "makedirs_from fs exist_ok ab pre (c # cs) =
     (case fs (ab, pre @ [c]) of
        Some (Dir names) \<Rightarrow>
          (if cs = [] \<and> \<not> exist_ok then Inl FileExistsError
           else makedirs_from fs exist_ok ab (pre @ [c]) cs)
      | Some (File x) \<Rightarrow>
          (if cs = [] then Inl FileExistsError
           else makedirs_from fs exist_ok ab (pre @ [c]) cs)
      | None \<Rightarrow>
          (case mkdir fs ab (pre @ [c]) of
             Inl e \<Rightarrow> Inl e
           | Inr fs' \<Rightarrow> makedirs_from fs' exist_ok ab (pre @ [c]) cs))"

definition os_makedirs :: "world \<Rightarrow> path \<Rightarrow> bool \<Rightarrow> error + world" where
  "os_makedirs w name exist_ok =
     (if name = [] then Inl FileNotFoundError
      else case makedirs_from (files w) exist_ok (fst (resolve name)) [] (snd (resolve name)) of
        Inl e \<Rightarrow> Inl e
      | Inr fs' \<Rightarrow> Inr (w\<lparr>files := fs'\<rparr>))"

text \<open>Opening a file for writing and storing \<open>c\<close> in it.\<close>

definition write_file :: "fs \<Rightarrow> path \<Rightarrow> content \<Rightarrow> error + fs" where
  "write_file fs p c =
     (case resolve p of (ab, comps) \<Rightarrow>
        if p = [] then Inl FileNotFoundError
        else if comps = [] then Inl IsADirectoryError
        else case fs (ab, comps) of
          Some (Dir names) \<Rightarrow> Inl IsADirectoryError
        | _ \<Rightarrow>
          (case fs (ab, butlast comps) of
             None \<Rightarrow> Inl FileNotFoundError
           | Some (File x) \<Rightarrow> Inl NotADirectoryError
           | Some (Dir names) \<Rightarrow>
               Inr ((fs((ab, butlast comps) \<mapsto>
                         Dir (if last comps \<in> set names then names else names @ [last comps])))
                      ((ab, comps) \<mapsto> File c))))"

text \<open>\<^verbatim>\<open>np.load(file)\<close>, with \<^verbatim>\<open>allow_pickle\<close> at its default.\<close>

definition np_load :: "world \<Rightarrow> path \<Rightarrow> error + npval" where
  "np_load w p =
     (case files w (resolve p) of
        None \<Rightarrow> Inl FileNotFoundError
      | Some (Dir names) \<Rightarrow> Inl IsADirectoryError
      | Some (File (Npy a)) \<Rightarrow> Inr (Arr a)
      | Some (File (Npz m)) \<Rightarrow> Inr (NpzFile m)
      | Some (File x) \<Rightarrow> Inl ValueError)"

text \<open>\<^verbatim>\<open>data[k]\<close> for a string \<open>k\<close>: the member of an archive, \<^verbatim>\<open>KeyError\<close> when the archive
  has none of that name; an array cannot be indexed by a string.\<close>

definition getitem :: "npval \<Rightarrow> string \<Rightarrow> error + array" where
  "getitem d k =
     (case d of
        NpzFile m \<Rightarrow> (case m k of None \<Rightarrow> Inl (KeyError k) | Some a \<Rightarrow> Inr a)
      | Arr a \<Rightarrow> Inl IndexError)"

text \<open>\<^verbatim>\<open>pkl.load(open(p, 'rb'))\<close>\<close>

definition pkl_load :: "world \<Rightarrow> path \<Rightarrow> error + (string \<Rightarrow> string option)" where
  "pkl_load w p =
     (case files w (resolve p) of
        None \<Rightarrow> Inl FileNotFoundError
      | Some (Dir names) \<Rightarrow> Inl IsADirectoryError
      | Some (File (Pkl d)) \<Rightarrow> Inr d
      | Some (File x) \<Rightarrow> Inl UnpicklingError)"

definition importable :: "world \<Rightarrow> string \<Rightarrow> bool" where
  "importable w name = (name \<in> set (modules w))"

text \<open>The mesh library psbody.mesh: \<^verbatim>\<open>Mesh(v, f)\<close>, \<^verbatim>\<open>Mesh(filename=p)\<close>,
  \<^verbatim>\<open>set_vertex_colors\<close>, \<^verbatim>\<open>set_vertex_colors_from_weights\<close> and \<^verbatim>\<open>write_obj\<close>, which makes the
  directory of the file when it does not exist. The library trimesh:
  \<^verbatim>\<open>Trimesh(v, f, process=False).export(p)\<close>.\<close>

definition Mesh :: "array \<Rightarrow> npval \<Rightarrow> mesh" where
  "Mesh vs fcs = \<lparr>mesh_v = vs, mesh_f = fcs, mesh_vc = None\<rparr>"

definition Mesh_from_file :: "world \<Rightarrow> path \<Rightarrow> error + mesh" where
  "Mesh_from_file w p =
     (case files w (resolve p) of
        None \<Rightarrow> Inl FileNotFoundError
      | Some (Dir names) \<Rightarrow> Inl IsADirectoryError
      | Some (File (Ply m)) \<Rightarrow> Inr m
      | Some (File x) \<Rightarrow> Inl SerializationError)"

definition set_vertex_colors :: "mesh \<Rightarrow> array \<Rightarrow> mesh" where
  "set_vertex_colors m c = m\<lparr>mesh_vc := Some (Colour c)\<rparr>"

definition set_vertex_colors_from_weights :: "mesh \<Rightarrow> array \<Rightarrow> mesh" where
  "set_vertex_colors_from_weights m ws = m\<lparr>mesh_vc := Some (Weights ws)\<rparr>"

definition store_mesh :: "world \<Rightarrow> path \<Rightarrow> mesh \<Rightarrow> error + world" where
  "store_mesh w p m =
     (case write_file (files w) p (Obj m) of
        Inl e \<Rightarrow> Inl e
      | Inr fs' \<Rightarrow> Inr (w\<lparr>files := fs', exported := exported w @ [(p, m)]\<rparr>))"

definition write_obj :: "world \<Rightarrow> mesh \<Rightarrow> path \<Rightarrow> error + world" where
  "write_obj w m filename =
     (if dirname filename \<noteq> [] \<and> \<not> exists w (dirname filename)
      then (case os_makedirs w (dirname filename) False of
              Inl e \<Rightarrow> Inl e
            | Inr w' \<Rightarrow> store_mesh w' filename m)
      else store_mesh w filename m)"

definition trimesh_export :: "world \<Rightarrow> mesh \<Rightarrow> path \<Rightarrow> error + world" where
  "trimesh_export w m p = store_mesh w p m"

subsection \<open>The class \<^verbatim>\<open>CAPE_utils\<close>\<close>

record cape_utils =
  dataset_dir :: string
  faces :: npval
  mesh_lib :: string

text \<open>
  \<^verbatim>\<open>
  def __init__(self, mesh_lib='psbody.mesh', dataset_dir=''):
      self.dataset_dir = dataset_dir
      self.faces = np.load(join(dataset_dir, 'misc', 'smpl_tris.npy'))
      self.mesh_lib = mesh_lib
  \<close>
\<close>

definition CAPE_utils :: "world \<Rightarrow> string \<Rightarrow> string \<Rightarrow> error + cape_utils" where
  "CAPE_utils w lib dir =
     (case np_load w (join dir [''misc'', ''smpl_tris.npy'']) of
        Inl e \<Rightarrow> Inl e
      | Inr fcs \<Rightarrow> Inr \<lparr>dataset_dir = dir, faces = fcs, mesh_lib = lib\<rparr>)"

text \<open>
  \<^verbatim>\<open>
  def load_single_frame(self, npz_fn):
      data = np.load(npz_fn)
      return data['v_cano'], data['v_posed'], data['pose'], data['transl']
  \<close>
\<close>

definition load_single_frame ::
  "cape_utils \<Rightarrow> world \<Rightarrow> path \<Rightarrow> error + (array \<times> array \<times> array \<times> array)" where
  "load_single_frame self w npz_fn =
     (case np_load w npz_fn of
        Inl e \<Rightarrow> Inl e
      | Inr d \<Rightarrow>
     (case getitem d ''v_cano'' of
        Inl e \<Rightarrow> Inl e
      | Inr v_cano \<Rightarrow>
     (case getitem d ''v_posed'' of
        Inl e \<Rightarrow> Inl e
      | Inr v_posed \<Rightarrow>
     (case getitem d ''pose'' of
        Inl e \<Rightarrow> Inl e
      | Inr pose \<Rightarrow>
     (case getitem d ''transl'' of
        Inl e \<Rightarrow> Inl e
      | Inr transl \<Rightarrow> Inr (v_cano, v_posed, pose, transl))))))"

text \<open>
  \<^verbatim>\<open>
  def calc_clo_disp(self, v_cano, minimal_cano):
      return v_cano - minimal_cano
  \<close>
  The method does not look at the element type: it is modelled for every type with a
  subtraction.
\<close>

definition calc_clo_disp ::
  "cape_utils \<Rightarrow> 'a::minus ndarray \<Rightarrow> 'a ndarray \<Rightarrow> error + 'a ndarray" where
  "calc_clo_disp self v_cano minimal_cano = np_subtract v_cano minimal_cano"

text \<open>
  The method \<^verbatim>\<open>demo\<close> (lines 46 to 82). It imports psbody.mesh, looks the subject up in
  the gender table under \<^verbatim>\<open>self.dataset_dir\<close>, and then reads the name \<^verbatim>\<open>dataset_dir\<close>, which
  is not a local of the method: Python looks it up among the module's names. What it puts
  into the two panels of the viewer is the result; console output is not modelled.
\<close>

record viewers =
  panel_0_0 :: "mesh list"
  panel_0_1 :: "mesh list"

definition demo :: "cape_utils \<Rightarrow> string \<Rightarrow> string \<Rightarrow> world \<Rightarrow> error + viewers" where
  "demo self subj seq_name w =
     (if \<not> importable w ''psbody.mesh'' then Inl (ModuleNotFoundError ''psbody.mesh'')
      else case pkl_load w (join (dataset_dir self) [''misc'', ''subj_genders.pkl'']) of
        Inl e \<Rightarrow> Inl e
      | Inr genders \<Rightarrow>
     (case genders subj of
        None \<Rightarrow> Inl (KeyError subj)
      | Some gender \<Rightarrow>
     (case module_dataset_dir w of
        None \<Rightarrow> Inl (NameError ''dataset_dir'')
      | Some ddir \<Rightarrow>
     (case np_load w (join ddir [''minimal_body_shape'', subj, subj @ ''_minimal.npy'']) of
        Inl e \<Rightarrow> Inl e
      | Inr minimal_cano \<Rightarrow>
     (case os_listdir w (join ddir [''sequences'', subj, seq_name]) of
        Inl e \<Rightarrow> Inl e
      | Inr [] \<Rightarrow> Inl IndexError
      | Inr (data_choice # rest) \<Rightarrow>
     (case load_single_frame self w (join (join ddir [''sequences'', subj, seq_name]) [data_choice]) of
        Inl e \<Rightarrow> Inl e
      | Inr (clo_cano, clo_posed, pose_params, transl) \<Rightarrow>
     (case minimal_cano of
        NpzFile m \<Rightarrow> Inl TypeError
      | Arr minimal \<Rightarrow>
     (case calc_clo_disp self clo_cano minimal of
        Inl e \<Rightarrow> Inl e
      | Inr clo_disps \<Rightarrow>
     (case np_linalg_norm clo_disps of
        Inl e \<Rightarrow> Inl e
      | Inr vc \<Rightarrow>
          Inr \<lparr>panel_0_0 = [Mesh minimal (faces self)],
               panel_0_1 = [set_vertex_colors_from_weights (Mesh clo_cano (faces self)) vc]\<rparr>)))))))))"

text \<open>
  The method \<^verbatim>\<open>extract_mesh_seq\<close> (lines 85 to 109). \<open>export_frame\<close> is the end of the
  loop body (lines 103 to 109), \<open>extract_frame\<close> the loop body, \<open>extract_frames\<close> the loop.
\<close>

definition export_frame :: "cape_utils \<Rightarrow> world \<Rightarrow> array \<Rightarrow> path \<Rightarrow> error + world" where
  "export_frame self w verts p =
     (if mesh_lib self = ''trimesh'' then
        (if \<not> importable w ''trimesh'' then Inl (ModuleNotFoundError ''trimesh'')
         else trimesh_export w (Mesh verts (faces self)) p)
      else if mesh_lib self = ''psbody.mesh'' then
        (if \<not> importable w ''psbody.mesh'' then Inl (ModuleNotFoundError ''psbody.mesh'')
         else write_obj w (Mesh verts (faces self)) p)
      else Inr w)"

definition extract_frame ::
  "cape_utils \<Rightarrow> path \<Rightarrow> string \<Rightarrow> path \<Rightarrow> world \<Rightarrow> error + world" where
  "extract_frame self mesh_dir option fn w =
     (case load_single_frame self w fn of
        Inl e \<Rightarrow> Inl e
      | Inr (v_cano, v_posed, pose_params, transl) \<Rightarrow>
          export_frame self w (if option = ''posed'' then v_posed else v_cano)
            (join mesh_dir [str_replace (basename fn) ''npz'' ''obj'']))"

fun extract_frames ::
  "cape_utils \<Rightarrow> path \<Rightarrow> string \<Rightarrow> path list \<Rightarrow> world \<Rightarrow> error + world" where
  "extract_frames self mesh_dir option [] w = Inr w"
| "extract_frames self mesh_dir option (fn # fns) w =
     (case extract_frame self mesh_dir option fn w of
        Inl e \<Rightarrow> Inl e
      | Inr w' \<Rightarrow> extract_frames self mesh_dir option fns w')"

definition extract_mesh_seq ::
  "cape_utils \<Rightarrow> string \<Rightarrow> string \<Rightarrow> string \<Rightarrow> world \<Rightarrow> error + world" where
  "extract_mesh_seq self subj seq_name option w =
     (case os_makedirs w (join (dataset_dir self) [''meshes'', subj, seq_name, option]) True of
        Inl e \<Rightarrow> Inl e
      | Inr w' \<Rightarrow>
          extract_frames self (join (dataset_dir self) [''meshes'', subj, seq_name, option]) option
            (glob w' (join (join (dataset_dir self) [''sequences'', subj, seq_name]) [''*.npz'']))
            w')"

text \<open>
  The method \<^verbatim>\<open>vis_overlap\<close> (lines 137 to 174). \<open>vis_overlap_frame\<close> is the loop body
  for the index \<open>i\<close>, \<open>vis_overlap_frames\<close> the loop. The viewer and the prompt are not
  modelled. \<^verbatim>\<open>xs[:k]\<close> is \<open>py_take\<close>.
\<close>

definition py_take :: "int \<Rightarrow> 'a list \<Rightarrow> 'a list" where
  "py_take k xs = (if 0 \<le> k then take (nat k) xs else take (length xs - nat (- k)) xs)"

definition vis_overlap_frame ::
  "cape_utils \<Rightarrow> string \<Rightarrow> string \<Rightarrow> path list \<Rightarrow> path list \<Rightarrow> nat \<Rightarrow> world \<Rightarrow> error + world" where
  "vis_overlap_frame self subj seq_name aligns_list scans_list i w =
     (if \<not> i < length scans_list then Inl IndexError
      else case Mesh_from_file w (scans_list ! i) of
        Inl e \<Rightarrow> Inl e
      | Inr mscan \<Rightarrow>
     (if \<not> i < length aligns_list then Inl IndexError
      else case np_load w (aligns_list ! i) of
        Inl e \<Rightarrow> Inl e
      | Inr d \<Rightarrow>
     (case getitem d ''v_posed'' of
        Inl e \<Rightarrow> Inl e
      | Inr valign \<Rightarrow>
     (case write_obj w
             (set_vertex_colors (Mesh (np_true_divide (mesh_v mscan) 1000) (mesh_f mscan))
                \<lparr>shape = [3], elems = [0, 1, 0]\<rparr>)
             (join (join (dataset_dir self) [''scans'', subj, seq_name]) [format_02d i @ ''.png'']) of
        Inl e \<Rightarrow> Inl e
      | Inr w' \<Rightarrow>
          write_obj w'
            (set_vertex_colors (Mesh valign (faces self)) \<lparr>shape = [3], elems = [1, 0, 0]\<rparr>)
            (join (join (dataset_dir self) [''scans'', subj, seq_name]) [format_02d i @ ''.png''])))))"

fun vis_overlap_frames ::
  "cape_utils \<Rightarrow> string \<Rightarrow> string \<Rightarrow> path list \<Rightarrow> path list \<Rightarrow> nat list \<Rightarrow> world \<Rightarrow> error + world" where
  "vis_overlap_frames self subj seq_name aligns_list scans_list [] w = Inr w"
| "vis_overlap_frames self subj seq_name aligns_list scans_list (i # idx) w =
     (case vis_overlap_frame self subj seq_name aligns_list scans_list i w of
        Inl e \<Rightarrow> Inl e
      | Inr w' \<Rightarrow> vis_overlap_frames self subj seq_name aligns_list scans_list idx w')"

definition vis_overlap ::
  "cape_utils \<Rightarrow> string \<Rightarrow> string \<Rightarrow> int \<Rightarrow> world \<Rightarrow> error + world" where
  "vis_overlap self subj seq_name vis_num w =
     (if \<not> importable w ''psbody.mesh'' then Inl (ModuleNotFoundError ''psbody.mesh'')
      else if length (glob w (join (join (dataset_dir self) [''sequences'', subj, seq_name]) [''*.npz'']))
              \<noteq> length (glob w (join (join (dataset_dir self) [''raw_scans'', subj, seq_name]) [''*.ply'']))
      then Inl AssertionError
      else vis_overlap_frames self subj seq_name
             (sort (glob w (join (join (dataset_dir self) [''sequences'', subj, seq_name]) [''*.npz''])))
             (sort (glob w (join (join (dataset_dir self) [''raw_scans'', subj, seq_name]) [''*.ply''])))
             (py_take vis_num
                (permutation w
                   (length (glob w (join (join (dataset_dir self) [''raw_scans'', subj, seq_name]) [''*.ply''])))))
             w)"

subsection \<open>A small dataset\<close>

text \<open>
  One subject (\<^verbatim>\<open>00032\<close>) with one sequence (\<^verbatim>\<open>hips\<close>) of one frame of three vertices,
  laid out under \<^verbatim>\<open>data\<close> as the methods expect it. The theorems below are tried on it.
\<close>

definition example_faces :: array where
  "example_faces = \<lparr>shape = [1, 3], elems = [0, 1, 2]\<rparr>"

definition example_v_cano :: array where
  "example_v_cano = \<lparr>shape = [3, 3], elems = [1, 2, 0, 0, 1, 0, 0, 0, 1]\<rparr>"

definition example_v_posed :: array where
  "example_v_posed = \<lparr>shape = [3, 3], elems = [5, 2, 0, 4, 1, 0, 4, 0, 1]\<rparr>"

definition example_pose :: array where
  "example_pose = \<lparr>shape = [2], elems = [0, 1]\<rparr>"

definition example_transl :: array where
  "example_transl = \<lparr>shape = [3], elems = [4, 0, 0]\<rparr>"

definition example_minimal :: array where
  "example_minimal = \<lparr>shape = [3, 3], elems = [0, 2, 0, 0, 0, 0, 0, 0, 0]\<rparr>"

definition example_frame :: "string \<Rightarrow> array option" where
  "example_frame =
     [''v_cano'' \<mapsto> example_v_cano, ''v_posed'' \<mapsto> example_v_posed,
      ''pose'' \<mapsto> example_pose, ''transl'' \<mapsto> example_transl]"

definition example_scan :: mesh where
  "example_scan = Mesh \<lparr>shape = [3, 3], elems = [5000, 2000, 0, 4000, 1000, 0, 4000, 0, 1000]\<rparr>
     (Arr example_faces)"

definition example_files :: fs where
  "example_files = map_of
     [((False, []), Dir [''data'']),
      ((False, [''data'']), Dir [''misc'', ''minimal_body_shape'', ''sequences'', ''raw_scans'', ''scans'']),
      ((False, [''data'', ''misc'']), Dir [''smpl_tris.npy'', ''subj_genders.pkl'']),
      ((False, [''data'', ''misc'', ''smpl_tris.npy'']), File (Npy example_faces)),
      ((False, [''data'', ''misc'', ''subj_genders.pkl'']), File (Pkl [''00032'' \<mapsto> ''male''])),
      ((False, [''data'', ''minimal_body_shape'']), Dir [''00032'']),
      ((False, [''data'', ''minimal_body_shape'', ''00032'']), Dir [''00032_minimal.npy'']),
      ((False, [''data'', ''minimal_body_shape'', ''00032'', ''00032_minimal.npy'']),
         File (Npy example_minimal)),
      ((False, [''data'', ''sequences'']), Dir [''00032'']),
      ((False, [''data'', ''sequences'', ''00032'']), Dir [''hips'', ''empty'']),
      ((False, [''data'', ''sequences'', ''00032'', ''hips'']), Dir [''f1.npz'']),
      ((False, [''data'', ''sequences'', ''00032'', ''hips'', ''f1.npz'']), File (Npz example_frame)),
      ((False, [''data'', ''sequences'', ''00032'', ''empty'']), Dir [''notes.txt'']),
      ((False, [''data'', ''sequences'', ''00032'', ''empty'', ''notes.txt'']), File Other),
      ((False, [''data'', ''raw_scans'']), Dir [''00032'']),
      ((False, [''data'', ''raw_scans'', ''00032'']), Dir [''hips'']),
      ((False, [''data'', ''raw_scans'', ''00032'', ''hips'']), Dir [''f1.ply'']),
      ((False, [''data'', ''raw_scans'', ''00032'', ''hips'', ''f1.ply'']), File (Ply example_scan)),
      ((False, [''data'', ''scans'']), Dir [''00032'']),
      ((False, [''data'', ''scans'', ''00032'']), Dir [''hips'']),
      ((False, [''data'', ''scans'', ''00032'', ''hips'']), Dir [])]"

text \<open>The world of a session that has imported the module: no module-level
  \<^verbatim>\<open>dataset_dir\<close>. Run as a script, the entry point has bound the name.\<close>

definition example_world :: world where
  "example_world =
     \<lparr>files = example_files, modules = [''psbody.mesh'', ''trimesh''],
      module_dataset_dir = None, permutation = (\<lambda>n. rev [0..<n]), exported = []\<rparr>"

definition example_script_world :: world where
  "example_script_world = example_world\<lparr>module_dataset_dir := Some ''data''\<rparr>"

definition example_self :: cape_utils where
  "example_self = \<lparr>dataset_dir = ''data'', faces = Arr example_faces, mesh_lib = ''trimesh''\<rparr>"

text \<open>Two damaged variants: a frame archive that lacks the translation entry, and a
  regular file sitting where the directory \<^verbatim>\<open>data/meshes\<close> should go.\<close>

definition example_truncated_world :: world where
  "example_truncated_world =
     example_world\<lparr>files := (files example_world)
        ((False, [''data'', ''sequences'', ''00032'', ''hips'', ''f1.npz'']) \<mapsto>
           File (Npz (example_frame(''transl'' := None))))\<rparr>"


section \<open>Properties\<close>

subsection \<open>Broadcasting of equal shapes\<close>

lemma bshape_rev_same: "bshape_rev s s = Some s"
  by (induction s) auto

lemma broadcast_shapes_same: "broadcast_shapes s s = Some s"
  by (simp add: broadcast_shapes_def bshape_rev_same)

lemma concat_chop: "length d = k * n \<Longrightarrow> concat (chop n k d) = d"
proof (induction k arbitrary: d)
  case 0
  then show ?case by simp
next
  case (Suc k)
  have "length (drop n d) = k * n" using Suc.prems by simp
  then show ?case using Suc.IH by simp
qed

lemma chop_block_length: "length d = k * n \<Longrightarrow> b \<in> set (chop n k d) \<Longrightarrow> length b = n"
proof (induction k arbitrary: d)
  case 0
  then show ?case by simp
next
  case (Suc k)
  have rest: "length (drop n d) = k * n" using Suc.prems(1) by simp
  from Suc.prems(2) have "b = take n d \<or> b \<in> set (chop n k (drop n d))" by simp
  then show ?case
  proof
    assume "b = take n d"
    then show ?thesis using Suc.prems(1) by simp
  next
    assume "b \<in> set (chop n k (drop n d))"
    then show ?thesis using Suc.IH [OF rest] by simp
  qed
qed

lemma expand_same: "length d = prod_list s \<Longrightarrow> expand s s d = d"
proof (induction s arbitrary: d)
  case Nil
  then show ?case by simp
next
  case (Cons k ss)
  have len: "length d = k * prod_list ss" using Cons.prems by simp
  have "map (expand ss ss) (chop (prod_list ss) k d) = chop (prod_list ss) k d"
    using chop_block_length [OF len] Cons.IH by (simp add: map_idI)
  then show ?case using concat_chop [OF len] by simp
qed

lemma broadcast_to_same: "wf_array a \<Longrightarrow> broadcast_to a (shape a) = elems a"
  by (simp add: broadcast_to_def pad_shape_def wf_array_def expand_same)

lemma np_binop_same_shape:
  assumes "wf_array a" and "wf_array b" and "shape b = shape a"
  shows "np_binop g a b = Inr \<lparr>shape = shape a, elems = map2 g (elems a) (elems b)\<rparr>"
  using assms broadcast_to_same [of a] broadcast_to_same [of b]
  by (simp add: np_binop_def broadcast_shapes_same)

lemma calc_clo_disp_same_shape:
  assumes "wf_array a" and "wf_array b" and "shape b = shape a"
  shows "calc_clo_disp self a b = Inr \<lparr>shape = shape a, elems = map2 (-) (elems a) (elems b)\<rparr>"
  using assms by (simp add: calc_clo_disp_def np_subtract_def np_binop_same_shape)

lemma map2_sub_add:
  fixes xs ys :: "'a::ab_group_add list"
  shows "length xs = length ys \<Longrightarrow> map2 (+) (map2 (-) xs ys) ys = xs"
  by (induction xs ys rule: list_induct2) simp_all


lemma broadcast_shapes_rows:
  "broadcast_shapes [n, k] [m, k] =
     (if n = m \<or> m = 1 then Some [n, k] else if n = 1 then Some [m, k] else None)"
  by (simp add: broadcast_shapes_def)

lemma expand_row:
  assumes "length d = k" and "m \<noteq> 1"
  shows "expand [1, k] [m, k] d = concat (replicate m d)"
proof -
  have "expand [k] [k] d = d" using assms(1) by (intro expand_same) simp
  then show ?thesis using assms(2) by auto
qed

lemma broadcast_to_row:
  assumes "wf_array a" and "shape a = [1, k]" and "m \<noteq> 1"
  shows "broadcast_to a [m, k] = concat (replicate m (elems a))"
proof -
  have "length (elems a) = k" using assms(1,2) by (simp add: wf_array_def)
  then have "expand [1, k] [m, k] (elems a) = concat (replicate m (elems a))"
    using assms(3) by (rule expand_row)
  then show ?thesis using assms(2) by (simp add: broadcast_to_def pad_shape_def del: expand.simps)
qed

lemma broadcast_to_full:
  assumes "wf_array a" and "shape a = s"
  shows "broadcast_to a s = elems a"
  using assms broadcast_to_same [of a] by simp

subsection \<open>The displacement method\<close>

text \<open>
  Claim C1. For two N\<times>3 arrays of the same vertex count N, \<^verbatim>\<open>calc_clo_disp\<close> returns the
  N\<times>3 array of the elementwise differences \<open>v_cano - minimal_cano\<close>; for
  \<open>v_cano = [[1,0,0],[0,1,0]]\<close> and \<open>minimal_cano = [[0,0,0],[0,0,0]]\<close> it returns
  \<open>[[1,0,0],[0,1,0]]\<close>. The first part holds for every element type with a subtraction.
\<close>

theorem calc_clo_disp_elementwise:
  "(\<forall>(v_cano :: 'a::minus ndarray) minimal_cano n.
      wf_array v_cano \<and> wf_array minimal_cano \<and> shape v_cano = [n, 3] \<and> shape minimal_cano = [n, 3] \<longrightarrow>
      calc_clo_disp self v_cano minimal_cano =
        Inr \<lparr>shape = [n, 3], elems = map2 (-) (elems v_cano) (elems minimal_cano)\<rparr>) \<and>
   calc_clo_disp self \<lparr>shape = [2, 3], elems = [1, 0, 0, 0, 1, 0 :: real]\<rparr>
      \<lparr>shape = [2, 3], elems = [0, 0, 0, 0, 0, 0]\<rparr> =
     Inr \<lparr>shape = [2, 3], elems = [1, 0, 0, 0, 1, 0]\<rparr>"
proof (intro conjI allI impI)
  fix v_cano minimal_cano :: "'a ndarray" and n
  assume "wf_array v_cano \<and> wf_array minimal_cano \<and> shape v_cano = [n, 3] \<and> shape minimal_cano = [n, 3]"
  then show "calc_clo_disp self v_cano minimal_cano =
        Inr \<lparr>shape = [n, 3], elems = map2 (-) (elems v_cano) (elems minimal_cano)\<rparr>"
    using calc_clo_disp_same_shape [of v_cano minimal_cano self] by simp
next
  have "wf_array \<lparr>shape = [2, 3], elems = [1, 0, 0, 0, 1, 0 :: real]\<rparr>"
    and "wf_array \<lparr>shape = [2, 3], elems = [0, 0, 0, 0, 0, 0 :: real]\<rparr>"
    by (simp_all add: wf_array_def)
  then show "calc_clo_disp self \<lparr>shape = [2, 3], elems = [1, 0, 0, 0, 1, 0 :: real]\<rparr>
      \<lparr>shape = [2, 3], elems = [0, 0, 0, 0, 0, 0]\<rparr> =
     Inr \<lparr>shape = [2, 3], elems = [1, 0, 0, 0, 1, 0]\<rparr>"
    by (simp add: calc_clo_disp_same_shape)
qed

theorem calc_clo_disp_elementwise_witness:
  "wf_array \<lparr>shape = [1, 3], elems = [5, 7, 9 :: int]\<rparr> \<and>
   wf_array \<lparr>shape = [1, 3], elems = [1, 2, 3 :: int]\<rparr> \<and>
   calc_clo_disp example_self \<lparr>shape = [1, 3], elems = [5, 7, 9 :: int]\<rparr>
      \<lparr>shape = [1, 3], elems = [1, 2, 3]\<rparr> = Inr \<lparr>shape = [1, 3], elems = [4, 5, 6]\<rparr>"
  using calc_clo_disp_elementwise [of example_self, THEN conjunct1, rule_format,
      of "\<lparr>shape = [1, 3], elems = [5, 7, 9 :: int]\<rparr>" "\<lparr>shape = [1, 3], elems = [1, 2, 3 :: int]\<rparr>" 1]
  by (simp add: wf_array_def)

lemma below_overflow: "\<bar>p\<bar> < 4 \<Longrightarrow> \<not> (2::rat) ^ 1024 \<le> \<bar>p\<bar>"
proof -
  assume "\<bar>p\<bar> < 4"
  moreover have "(2::rat) ^ 2 \<le> 2 ^ 1024" by (rule power_increasing) simp_all
  ultimately show ?thesis by simp
qed

lemma representableI: "round64 p = p \<Longrightarrow> \<bar>p\<bar> < 4 \<Longrightarrow> representable (Finite p)"
  using below_overflow [of p] by (simp add: representable_def)

lemma exact_differenceI:
  "round64 (p - q) = p - q \<Longrightarrow> \<bar>p - q\<bar> < 4 \<Longrightarrow> exact_difference (Finite p) (Finite q)"
  using below_overflow [of "p - q"] by (simp add: exact_difference_def)

lemma f64_round_trip:
  assumes "representable x" and "exact_difference x y"
  shows "(x - y) + y = x"
proof -
  from assms(2) obtain p q where x: "x = Finite p" and y: "y = Finite q"
    and exact: "round64 (p - q) = p - q" and small: "\<bar>p - q\<bar> < 2 ^ 1024"
    by (auto simp: exact_difference_def split: f64.splits)
  from assms(1) x have p: "round64 p = p" and bounded: "\<bar>p\<bar> < 2 ^ 1024"
    by (simp_all add: representable_def)
  have "x - y = Finite (p - q)"
    using exact small by (simp add: x y minus_f64_def f64_of_def)
  moreover have "Finite (p - q) + y = Finite p"
    using p bounded by (simp add: y plus_f64_def f64_of_def)
  ultimately show ?thesis by (simp add: x)
qed

lemma map2_f64_round_trip:
  assumes "list_all2 exact_difference xs ys" and "list_all representable xs"
  shows "map2 (+) (map2 (-) xs ys) ys = xs"
  using assms
  by (induction xs ys rule: list_all2_induct) (simp_all add: f64_round_trip)

lemma calc_clo_disp_round_trip_exact:
  fixes a b :: "'a::ab_group_add ndarray"
  assumes "wf_array a" and "wf_array b" and "shape a = [n, 3]" and "shape b = [n, 3]"
  shows "\<exists>d. calc_clo_disp self a b = Inr d \<and> np_add d b = Inr a"
proof -
  let ?d = "\<lparr>shape = shape a, elems = map2 (-) (elems a) (elems b)\<rparr>"
  have same: "shape b = shape a" using assms by simp
  have len: "length (elems a) = length (elems b)"
    using assms by (simp add: wf_array_def)
  have d: "calc_clo_disp self a b = Inr ?d"
    using assms(1,2) same by (rule calc_clo_disp_same_shape)
  have wfd: "wf_array ?d" using assms(1) len by (simp add: wf_array_def)
  have "np_add ?d b = Inr \<lparr>shape = shape ?d, elems = map2 (+) (elems ?d) (elems b)\<rparr>"
    unfolding np_add_def using wfd assms(2) same by (intro np_binop_same_shape) simp_all
  also have "\<dots> = Inr a" using len by (simp add: map2_sub_add)
  finally show ?thesis using d by blast
qed

lemma calc_clo_disp_round_trip_f64:
  fixes x y :: "f64 ndarray"
  assumes "wf_array x" and "wf_array y" and "shape x = [m, 3]" and "shape y = [m, 3]"
    and "list_all representable (elems x)"
    and "list_all2 exact_difference (elems x) (elems y)"
  shows "\<exists>d. calc_clo_disp self x y = Inr d \<and> np_add d y = Inr x"
proof -
  let ?d = "\<lparr>shape = shape x, elems = map2 (-) (elems x) (elems y)\<rparr>"
  have same: "shape y = shape x" using assms by simp
  have len: "length (elems x) = length (elems y)"
    using assms by (simp add: wf_array_def)
  have d: "calc_clo_disp self x y = Inr ?d"
    using assms(1,2) same by (rule calc_clo_disp_same_shape)
  have wfd: "wf_array ?d" using assms(1) len by (simp add: wf_array_def)
  have "np_add ?d y = Inr \<lparr>shape = shape ?d, elems = map2 (+) (elems ?d) (elems y)\<rparr>"
    unfolding np_add_def using wfd assms(2) same by (intro np_binop_same_shape) simp_all
  also have "\<dots> = Inr x"
    using map2_f64_round_trip [OF assms(6,5)] by simp
  finally show ?thesis using d by blast
qed

lemma round64_three_halves: "round64 (3 / 2) = 3 / 2"
  by code_simp

lemma round64_one: "round64 1 = 1"
  by code_simp

lemma round64_quarter: "round64 (1 / 4) = 1 / 4"
  by code_simp

lemma round64_zero: "round64 0 = 0"
  by (simp add: round64_def)

lemma example_f64_exact:
  "list_all representable [Finite (3 / 2), Finite (1 / 4), Finite 0]"
  "list_all2 exact_difference [Finite (3 / 2), Finite (1 / 4), Finite 0]
     [Finite (1 / 2), Finite (1 / 4), Finite 0]"
  by (simp_all add: representableI exact_differenceI round64_three_halves round64_one
      round64_quarter round64_zero)

lemma example_roundings:
  "round64 (1 / 10) = example_tenth"
  "round64 (4 / 10) = example_four_tenths"
  "round64 example_tenth = example_tenth"
  "round64 example_four_tenths = example_four_tenths"
  by code_simp+

lemma example_subtraction: "round64 (example_tenth - example_four_tenths) = example_difference"
  by code_simp

lemma example_addition: "round64 (example_difference + example_four_tenths) = example_sum"
  by code_simp

lemma example_bounds:
  "\<bar>example_tenth\<bar> < 4" "\<bar>example_four_tenths\<bar> < 4" "\<bar>example_difference\<bar> < 4" "\<bar>example_sum\<bar> < 4"
  "example_sum \<noteq> example_tenth"
  by (simp_all add: example_tenth_def example_four_tenths_def example_difference_def example_sum_def)

lemma example_f64_ops:
  "Finite example_tenth - Finite example_four_tenths = Finite example_difference"
  "Finite example_difference + Finite example_four_tenths = Finite example_sum"
  "Finite 0 - Finite 0 = Finite 0"
  "Finite 0 + Finite 0 = Finite 0"
  using below_overflow [OF example_bounds(3)] below_overflow [OF example_bounds(4)]
  by (simp_all add: minus_f64_def plus_f64_def f64_of_def example_subtraction example_addition
      round64_zero)

text \<open>
  Claim C2, as amended. For two N\<times>3 arrays \<open>a\<close> and \<open>b\<close> of the same vertex count, adding
  \<open>b\<close> elementwise to the displacement of \<open>a\<close> and \<open>b\<close> gives \<open>a\<close> back whenever the
  arithmetic of the elements is exact: for every element type that is an abelian group
  (integers, machine integers that wrap around), and for \<^verbatim>\<open>float64\<close> arrays of finite
  values whenever no elementwise difference is rounded.
\<close>

theorem calc_clo_disp_round_trip:
  fixes a b :: "'a::ab_group_add ndarray" and x y :: "f64 ndarray"
  shows "(wf_array a \<and> wf_array b \<and> shape a = [n, 3] \<and> shape b = [n, 3] \<longrightarrow>
            (\<exists>d. calc_clo_disp self a b = Inr d \<and> np_add d b = Inr a)) \<and>
         (wf_array x \<and> wf_array y \<and> shape x = [m, 3] \<and> shape y = [m, 3] \<and>
          list_all representable (elems x) \<and> list_all2 exact_difference (elems x) (elems y) \<longrightarrow>
            (\<exists>d. calc_clo_disp self x y = Inr d \<and> np_add d y = Inr x))"
  using calc_clo_disp_round_trip_exact [of a b n self] calc_clo_disp_round_trip_f64 [of x y m self]
  by blast

theorem calc_clo_disp_round_trip_witness:
  "(\<exists>d. calc_clo_disp example_self \<lparr>shape = [1, 3], elems = [5, 7, 9 :: int]\<rparr>
            \<lparr>shape = [1, 3], elems = [1, 2, 3]\<rparr> = Inr d \<and>
        np_add d \<lparr>shape = [1, 3], elems = [1, 2, 3]\<rparr> = Inr \<lparr>shape = [1, 3], elems = [5, 7, 9]\<rparr>) \<and>
   (\<exists>d. calc_clo_disp example_self \<lparr>shape = [1, 3], elems = [Finite (3 / 2), Finite (1 / 4), Finite 0]\<rparr>
            \<lparr>shape = [1, 3], elems = [Finite (1 / 2), Finite (1 / 4), Finite 0]\<rparr> = Inr d \<and>
        np_add d \<lparr>shape = [1, 3], elems = [Finite (1 / 2), Finite (1 / 4), Finite 0]\<rparr> =
          Inr \<lparr>shape = [1, 3], elems = [Finite (3 / 2), Finite (1 / 4), Finite 0]\<rparr>)"
  using calc_clo_disp_round_trip [where a = "\<lparr>shape = [1, 3], elems = [5, 7, 9 :: int]\<rparr>"
      and b = "\<lparr>shape = [1, 3], elems = [1, 2, 3 :: int]\<rparr>" and n = 1
      and x = "\<lparr>shape = [1, 3], elems = [Finite (3 / 2), Finite (1 / 4), Finite 0]\<rparr>"
      and y = "\<lparr>shape = [1, 3], elems = [Finite (1 / 2), Finite (1 / 4), Finite 0]\<rparr>" and m = 1
      and self = example_self]
    example_f64_exact
  by (simp add: wf_array_def)

text \<open>
  The claim as stated (for all arrays of equal vertex count) is false for floating-point
  arrays, which is what a frame holds: the subtraction rounds. For the \<^verbatim>\<open>float64\<close> values
  0.1 and 0.4 in the first coordinate of a one-vertex array, the displacement is
  -0.30000000000000004 and adding 0.4 back gives 0.09999999999999998, not 0.1.
\<close>

theorem calc_clo_disp_round_trip_counterexample:
  "round64 (1 / 10) = example_tenth \<and> round64 (4 / 10) = example_four_tenths \<and>
   representable (Finite example_tenth) \<and> representable (Finite example_four_tenths) \<and>
   calc_clo_disp example_self
     \<lparr>shape = [1, 3], elems = [Finite example_tenth, Finite 0, Finite 0]\<rparr>
     \<lparr>shape = [1, 3], elems = [Finite example_four_tenths, Finite 0, Finite 0]\<rparr> =
     Inr \<lparr>shape = [1, 3], elems = [Finite example_difference, Finite 0, Finite 0]\<rparr> \<and>
   np_add \<lparr>shape = [1, 3], elems = [Finite example_difference, Finite 0, Finite 0]\<rparr>
     \<lparr>shape = [1, 3], elems = [Finite example_four_tenths, Finite 0, Finite 0]\<rparr> =
     Inr \<lparr>shape = [1, 3], elems = [Finite example_sum, Finite 0, Finite 0]\<rparr> \<and>
   Finite example_sum \<noteq> Finite example_tenth"
proof (intro conjI)
  show "round64 (1 / 10) = example_tenth" and "round64 (4 / 10) = example_four_tenths"
    by (rule example_roundings)+
  show "representable (Finite example_tenth)" and "representable (Finite example_four_tenths)"
    by (simp_all add: representableI example_roundings example_bounds)
  have wf: "wf_array \<lparr>shape = [1, 3], elems = [u, v, w]\<rparr>" for u v w :: f64
    by (simp add: wf_array_def)
  show "calc_clo_disp example_self
     \<lparr>shape = [1, 3], elems = [Finite example_tenth, Finite 0, Finite 0]\<rparr>
     \<lparr>shape = [1, 3], elems = [Finite example_four_tenths, Finite 0, Finite 0]\<rparr> =
     Inr \<lparr>shape = [1, 3], elems = [Finite example_difference, Finite 0, Finite 0]\<rparr>"
    using calc_clo_disp_same_shape [OF wf wf, of "Finite example_four_tenths" "Finite 0" "Finite 0"
        "Finite example_tenth" "Finite 0" "Finite 0" example_self]
    by (simp add: example_f64_ops)
  show "np_add \<lparr>shape = [1, 3], elems = [Finite example_difference, Finite 0, Finite 0]\<rparr>
     \<lparr>shape = [1, 3], elems = [Finite example_four_tenths, Finite 0, Finite 0]\<rparr> =
     Inr \<lparr>shape = [1, 3], elems = [Finite example_sum, Finite 0, Finite 0]\<rparr>"
    using np_binop_same_shape [OF wf wf, of "Finite example_four_tenths" "Finite 0" "Finite 0"
        "Finite example_difference" "Finite 0" "Finite 0" "(+)"]
    by (simp add: np_add_def example_f64_ops)
  show "Finite example_sum \<noteq> Finite example_tenth"
    by (simp add: example_bounds)
qed



text \<open>
  Claim C4, as amended. The method has no check of its own: the subtraction broadcasts.
  For an N\<times>3 and an M\<times>3 array with N \<noteq> M, the call fails with numpy's \<^verbatim>\<open>ValueError\<close>
  and gives no result when neither N nor M is 1; when one of them is 1, the single row
  is repeated against the other array and the result has the other array's shape.
\<close>

theorem calc_clo_disp_mismatch:
  fixes a b :: "'a::minus ndarray"
  assumes "wf_array a" and "wf_array b" and "shape a = [n, 3]" and "shape b = [m, 3]" and "n \<noteq> m"
  shows "(n \<noteq> 1 \<and> m \<noteq> 1 \<longrightarrow> calc_clo_disp self a b = Inl ValueError) \<and>
         (n = 1 \<longrightarrow> calc_clo_disp self a b =
            Inr \<lparr>shape = [m, 3], elems = map2 (-) (concat (replicate m (elems a))) (elems b)\<rparr>) \<and>
         (m = 1 \<longrightarrow> calc_clo_disp self a b =
            Inr \<lparr>shape = [n, 3], elems = map2 (-) (elems a) (concat (replicate n (elems b)))\<rparr>)"
proof (intro conjI impI)
  assume "n \<noteq> 1 \<and> m \<noteq> 1"
  then show "calc_clo_disp self a b = Inl ValueError"
    using assms by (simp add: calc_clo_disp_def np_subtract_def np_binop_def broadcast_shapes_rows)
next
  assume n: "n = 1"
  then have m: "m \<noteq> 1" using assms(5) by simp
  have "broadcast_to a [m, 3] = concat (replicate m (elems a))"
    using assms(1,3) n m by (intro broadcast_to_row) simp_all
  moreover have "broadcast_to b [m, 3] = elems b"
    using assms(2,4) by (rule broadcast_to_full)
  ultimately show "calc_clo_disp self a b =
      Inr \<lparr>shape = [m, 3], elems = map2 (-) (concat (replicate m (elems a))) (elems b)\<rparr>"
    using assms(3,4) n m
    by (simp add: calc_clo_disp_def np_subtract_def np_binop_def broadcast_shapes_rows)
next
  assume m: "m = 1"
  then have n: "n \<noteq> 1" using assms(5) by simp
  have "broadcast_to b [n, 3] = concat (replicate n (elems b))"
    using assms(2,4) n m by (intro broadcast_to_row) simp_all
  moreover have "broadcast_to a [n, 3] = elems a"
    using assms(1,3) by (rule broadcast_to_full)
  ultimately show "calc_clo_disp self a b =
      Inr \<lparr>shape = [n, 3], elems = map2 (-) (elems a) (concat (replicate n (elems b)))\<rparr>"
    using assms(3,4) n m
    by (simp add: calc_clo_disp_def np_subtract_def np_binop_def broadcast_shapes_rows)
qed

theorem calc_clo_disp_mismatch_witness:
  "calc_clo_disp example_self \<lparr>shape = [2, 3], elems = [1, 0, 0, 0, 1, 0 :: real]\<rparr>
      \<lparr>shape = [3, 3], elems = [0, 0, 0, 0, 0, 0, 0, 0, 0]\<rparr> = Inl ValueError"
  using calc_clo_disp_mismatch [of "\<lparr>shape = [2, 3], elems = [1, 0, 0, 0, 1, 0 :: real]\<rparr>"
      "\<lparr>shape = [3, 3], elems = [0, 0, 0, 0, 0, 0, 0, 0, 0 :: real]\<rparr>" 2 3 example_self]
  by (simp add: wf_array_def)

text \<open>
  The claim as stated (every pair of inputs whose vertex counts differ fails) is false
  for a one-vertex array against a two-vertex array: the call returns a 2\<times>3 array.
\<close>

theorem calc_clo_disp_mismatch_counterexample:
  "hd (shape \<lparr>shape = [1, 3], elems = [1, 0, 0 :: real]\<rparr>) = 1 \<and>
   hd (shape \<lparr>shape = [2, 3], elems = [0, 0, 0, 0, 0, 0 :: real]\<rparr>) = 2 \<and>
   calc_clo_disp example_self \<lparr>shape = [1, 3], elems = [1, 0, 0 :: real]\<rparr>
      \<lparr>shape = [2, 3], elems = [0, 0, 0, 0, 0, 0]\<rparr> =
     Inr \<lparr>shape = [2, 3], elems = [1, 0, 0, 1, 0, 0]\<rparr>"
  by (simp add: calc_clo_disp_def np_subtract_def np_binop_def broadcast_shapes_def
      broadcast_to_def pad_shape_def eval_nat_numeral)

subsection \<open>Loading a frame\<close>

lemma np_load_npz:
  "files w (resolve p) = Some (File (Npz m)) \<Longrightarrow> np_load w p = Inr (NpzFile m)"
  by (simp add: np_load_def)

lemma getitem_npz:
  "getitem (NpzFile m) k = (case m k of None \<Rightarrow> Inl (KeyError k) | Some a \<Rightarrow> Inr a)"
  by (simp add: getitem_def)

lemma resolve_f1:
  "resolve ''data/sequences/00032/hips/f1.npz'' =
     (False, [''data'', ''sequences'', ''00032'', ''hips'', ''f1.npz''])"
  by (simp add: resolve_def startswith_def)

text \<open>
  Claim C5. When the path leads to an archive that has the four entries, \<^verbatim>\<open>load_single_frame\<close>
  returns the arrays stored under \<^verbatim>\<open>v_cano\<close>, \<^verbatim>\<open>v_posed\<close>, \<^verbatim>\<open>pose\<close> and \<^verbatim>\<open>transl\<close>, in that
  order, and nothing else.
\<close>

theorem load_single_frame_entries:
  assumes "files w (resolve npz_fn) = Some (File (Npz m))"
    and "m ''v_cano'' = Some v_cano" and "m ''v_posed'' = Some v_posed"
    and "m ''pose'' = Some pose" and "m ''transl'' = Some transl"
  shows "load_single_frame self w npz_fn = Inr (v_cano, v_posed, pose, transl)"
  using assms by (simp add: load_single_frame_def np_load_npz getitem_npz)

theorem load_single_frame_entries_witness:
  "load_single_frame example_self example_world ''data/sequences/00032/hips/f1.npz'' =
     Inr (example_v_cano, example_v_posed, example_pose, example_transl)"
proof -
  have "files example_world (resolve ''data/sequences/00032/hips/f1.npz'') =
      Some (File (Npz example_frame))"
    by (simp add: resolve_f1 example_world_def example_files_def)
  then show ?thesis
    by (rule load_single_frame_entries) (simp_all add: example_frame_def)
qed

text \<open>
  Claim C6, as amended. The program defines no error kinds of its own. For an archive
  that lacks \<^verbatim>\<open>transl\<close>, \<^verbatim>\<open>load_single_frame\<close> fails with the \<^verbatim>\<open>KeyError\<close> of the archive
  lookup, naming the first of the four keys, in the order they are read, that the archive
  lacks: \<^verbatim>\<open>transl\<close> itself when the other three are there. No array is returned.
\<close>

theorem load_single_frame_missing_transl:
  assumes "files w (resolve npz_fn) = Some (File (Npz m))" and "m ''transl'' = None"
  shows "\<exists>k. load_single_frame self w npz_fn = Inl (KeyError k) \<and> m k = None \<and>
           (m ''v_cano'' \<noteq> None \<and> m ''v_posed'' \<noteq> None \<and> m ''pose'' \<noteq> None \<longrightarrow> k = ''transl'') \<and>
           k = (if m ''v_cano'' = None then ''v_cano''
                else if m ''v_posed'' = None then ''v_posed''
                else if m ''pose'' = None then ''pose'' else ''transl'')"
  using assms
  by (auto simp: load_single_frame_def np_load_npz getitem_npz split: option.splits)

theorem load_single_frame_missing_transl_witness:
  "\<exists>k. load_single_frame example_self example_truncated_world ''data/sequences/00032/hips/f1.npz'' =
          Inl (KeyError k) \<and> (example_frame(''transl'' := None)) k = None \<and> k = ''transl''"
proof -
  have "files example_truncated_world (resolve ''data/sequences/00032/hips/f1.npz'') =
      Some (File (Npz (example_frame(''transl'' := None))))"
    by (simp add: resolve_f1 example_truncated_world_def)
  from load_single_frame_missing_transl [OF this, of example_self]
  show ?thesis by (simp add: example_frame_def)
qed

text \<open>
  The claim as stated names the error \<^verbatim>\<open>MalformedData\<close>. On the example archive without
  \<^verbatim>\<open>transl\<close> the error raised is Python's \<^verbatim>\<open>KeyError\<close>.
\<close>

theorem load_single_frame_missing_transl_counterexample:
  "load_single_frame example_self example_truncated_world ''data/sequences/00032/hips/f1.npz'' =
     Inl (KeyError ''transl'')"
  by (simp add: load_single_frame_def np_load_def getitem_def resolve_f1
      example_truncated_world_def example_frame_def)

subsection \<open>The demo\<close>

lemmas path_defs = join_def join2_def startswith_def endswith_def resolve_def
  path_split_def dirname_def basename_def

lemma np_load_not_NameError: "np_load w p \<noteq> Inl (NameError n)"
  by (simp add: np_load_def split: option.splits node.splits content.splits)

lemma pkl_load_not_NameError: "pkl_load w p \<noteq> Inl (NameError n)"
  by (simp add: pkl_load_def split: option.splits node.splits content.splits)

lemma os_listdir_not_NameError: "os_listdir w p \<noteq> Inl (NameError n)"
  by (simp add: os_listdir_def split: option.splits node.splits)

lemma getitem_not_NameError: "getitem d k \<noteq> Inl (NameError n)"
  by (simp add: getitem_def split: npval.splits option.splits)

lemma load_single_frame_not_NameError: "load_single_frame self w p \<noteq> Inl (NameError n)"
  by (auto simp: load_single_frame_def np_load_not_NameError getitem_not_NameError split: sum.splits)

lemma calc_clo_disp_not_NameError: "calc_clo_disp self a b \<noteq> Inl (NameError n)"
  by (simp add: calc_clo_disp_def np_subtract_def np_binop_def split: option.splits)

lemma np_linalg_norm_not_NameError: "np_linalg_norm a \<noteq> Inl (NameError n)"
  by (simp add: np_linalg_norm_def)

text \<open>With the module-level name bound, no step of the demo raises \<^verbatim>\<open>NameError\<close>.\<close>

lemma demo_bound_not_NameError:
  assumes "module_dataset_dir w = Some d"
  shows "demo self subj seq_name w \<noteq> Inl (NameError n)"
  using assms
  by (auto simp: demo_def pkl_load_not_NameError np_load_not_NameError os_listdir_not_NameError
      load_single_frame_not_NameError calc_clo_disp_not_NameError np_linalg_norm_not_NameError
      split: sum.splits option.splits list.splits npval.splits prod.splits)

text \<open>With the name unbound, the demo ends at line 54 at the latest.\<close>

lemma demo_unbound:
  assumes "module_dataset_dir w = None"
  shows "demo self subj seq_name w =
     (if \<not> importable w ''psbody.mesh'' then Inl (ModuleNotFoundError ''psbody.mesh'')
      else case pkl_load w (join (dataset_dir self) [''misc'', ''subj_genders.pkl'']) of
        Inl e \<Rightarrow> Inl e
      | Inr genders \<Rightarrow>
          (case genders subj of
             None \<Rightarrow> Inl (KeyError subj)
           | Some gender \<Rightarrow> Inl (NameError ''dataset_dir'')))"
  using assms by (simp add: demo_def split: sum.splits option.splits)

text \<open>
  Claim C9, as amended. The name \<^verbatim>\<open>dataset_dir\<close> that \<^verbatim>\<open>demo\<close> reads at lines 54 and 57 is
  looked up among the module's names. When it is unbound (the module was imported, not
  run as a script), every call of \<^verbatim>\<open>demo\<close> fails and computes no displacement: with
  \<^verbatim>\<open>NameError\<close> when the import of the mesh library and the lookup in the gender table
  succeed, with their error otherwise. \<^verbatim>\<open>NameError\<close> is raised in no other case.
\<close>

theorem demo_name_error:
  "(module_dataset_dir w = None \<longrightarrow> (\<exists>e. demo self subj seq_name w = Inl e)) \<and>
   (module_dataset_dir w = None \<and> importable w ''psbody.mesh'' \<and>
      pkl_load w (join (dataset_dir self) [''misc'', ''subj_genders.pkl'']) = Inr genders \<and>
      genders subj = Some gender \<longrightarrow>
    demo self subj seq_name w = Inl (NameError ''dataset_dir'')) \<and>
   (demo self subj seq_name w = Inl (NameError n) \<longrightarrow>
      n = ''dataset_dir'' \<and> module_dataset_dir w = None)"
proof (intro conjI impI)
  assume "module_dataset_dir w = None"
  then show "\<exists>e. demo self subj seq_name w = Inl e"
    by (simp add: demo_unbound split: sum.splits option.splits)
next
  assume "module_dataset_dir w = None \<and> importable w ''psbody.mesh'' \<and>
      pkl_load w (join (dataset_dir self) [''misc'', ''subj_genders.pkl'']) = Inr genders \<and>
      genders subj = Some gender"
  then show "demo self subj seq_name w = Inl (NameError ''dataset_dir'')"
    by (simp add: demo_unbound)
next
  assume ne: "demo self subj seq_name w = Inl (NameError n)"
  show "module_dataset_dir w = None"
  proof (cases "module_dataset_dir w")
    case None
    then show ?thesis .
  next
    case (Some d)
    then show ?thesis using demo_bound_not_NameError [OF Some] ne by simp
  qed
  then show "n = ''dataset_dir''"
    using ne by (simp add: demo_unbound pkl_load_not_NameError split: if_splits sum.splits option.splits)
qed

theorem demo_name_error_witness:
  "module_dataset_dir example_world = None \<and>
   demo example_self ''00032'' ''hips'' example_world = Inl (NameError ''dataset_dir'')"
proof -
  have "module_dataset_dir example_world = None"
    by (simp add: example_world_def)
  moreover have "importable example_world ''psbody.mesh''"
    by (simp add: importable_def example_world_def)
  moreover have "pkl_load example_world (join (dataset_dir example_self) [''misc'', ''subj_genders.pkl'']) =
      Inr [''00032'' \<mapsto> ''male'']"
    by (simp add: pkl_load_def path_defs example_self_def example_world_def example_files_def)
  moreover have "[''00032'' \<mapsto> ''male''] ''00032'' = Some ''male''"
    by simp
  ultimately show ?thesis
    using demo_name_error [of example_world example_self "''00032''" "''hips''"
        "[''00032'' \<mapsto> ''male'']" "''male''"]
    by blast
qed

text \<open>
  The claim as stated (every call fails with the unbound name, the demo is unreachable)
  is false when the module is run as a script: the entry point assigns \<^verbatim>\<open>dataset_dir\<close> at
  module level (lines 193 to 197) before it builds the object and calls \<^verbatim>\<open>demo\<close>. On the
  example dataset the object is built and the demo shows the minimal body and the clothed
  body, coloured by the norms of the displacements \<open>[[1,0,0],[0,1,0],[0,0,1]]\<close>.
\<close>

theorem demo_name_error_counterexample:
  "CAPE_utils example_script_world ''trimesh'' ''data'' = Inr example_self \<and>
   demo example_self ''00032'' ''hips'' example_script_world =
     Inr \<lparr>panel_0_0 = [Mesh example_minimal (Arr example_faces)],
          panel_0_1 = [set_vertex_colors_from_weights (Mesh example_v_cano (Arr example_faces))
                         \<lparr>shape = [3], elems = [1, 1, 1]\<rparr>]\<rparr>"
proof
  show "CAPE_utils example_script_world ''trimesh'' ''data'' = Inr example_self"
    by (simp add: CAPE_utils_def np_load_def path_defs example_script_world_def example_world_def
        example_files_def example_self_def)
  show "demo example_self ''00032'' ''hips'' example_script_world =
     Inr \<lparr>panel_0_0 = [Mesh example_minimal (Arr example_faces)],
          panel_0_1 = [set_vertex_colors_from_weights (Mesh example_v_cano (Arr example_faces))
                         \<lparr>shape = [3], elems = [1, 1, 1]\<rparr>]\<rparr>"
    by (simp add: demo_def importable_def example_script_world_def example_world_def example_self_def
        pkl_load_def np_load_def os_listdir_def load_single_frame_def getitem_def path_defs
        example_files_def example_frame_def calc_clo_disp_def np_subtract_def np_binop_def
        broadcast_shapes_def broadcast_to_def pad_shape_def np_linalg_norm_def
        example_v_cano_def example_minimal_def eval_nat_numeral)
qed

subsection \<open>Extracting a sequence\<close>

text \<open>Making directories adds directory nodes only: no regular file appears, and nothing
  is handed to the mesh library.\<close>

lemma mkdir_no_new_file:
  assumes "mkdir fs ab comps = Inr fs'" and "fs' k = Some (File c)"
  shows "fs k = Some (File c)"
  using assms
  by (auto simp: mkdir_def split: if_splits option.splits node.splits)

lemma makedirs_from_no_new_file:
  assumes "makedirs_from fs exist_ok ab pre comps = Inr fs'" and "fs' k = Some (File c)"
  shows "fs k = Some (File c)"
  using assms
proof (induction comps arbitrary: fs pre)
  case Nil
  then show ?case by simp
next
  case (Cons x xs)
  show ?case
  proof (cases "fs (ab, pre @ [x])")
    case None
    then obtain fs1 where mk: "mkdir fs ab (pre @ [x]) = Inr fs1"
      and rest: "makedirs_from fs1 exist_ok ab (pre @ [x]) xs = Inr fs'"
      using Cons.prems(1) by (auto split: sum.splits)
    have "fs1 k = Some (File c)" using Cons.IH [OF rest Cons.prems(2)] .
    then show ?thesis using mk by (rule mkdir_no_new_file [rotated])
  next
    case (Some nd)
    then have "makedirs_from fs exist_ok ab (pre @ [x]) xs = Inr fs'"
      using Cons.prems(1) by (cases nd) (auto split: if_splits)
    then show ?thesis using Cons.prems(2) by (rule Cons.IH)
  qed
qed

lemma os_makedirs_world:
  assumes "os_makedirs w name exist_ok = Inr w'"
  shows "exported w' = exported w \<and> modules w' = modules w \<and>
         (\<forall>k c. files w' k = Some (File c) \<longrightarrow> files w k = Some (File c))"
proof -
  from assms obtain fs' where
    mk: "makedirs_from (files w) exist_ok (fst (resolve name)) [] (snd (resolve name)) = Inr fs'"
    and w': "w' = w\<lparr>files := fs'\<rparr>"
    by (auto simp: os_makedirs_def split: if_splits sum.splits)
  show ?thesis using makedirs_from_no_new_file [OF mk] by (simp add: w')
qed




lemma extract_frame_not_posed:
  assumes "option \<noteq> ''posed''"
  shows "extract_frame self mesh_dir option fn w = extract_frame self mesh_dir ''canonical'' fn w"
  using assms by (simp add: extract_frame_def split: sum.splits prod.splits)

lemma extract_frames_not_posed:
  assumes "option \<noteq> ''posed''"
  shows "extract_frames self mesh_dir option fns w = extract_frames self mesh_dir ''canonical'' fns w"
  by (induction fns arbitrary: w) (simp_all add: extract_frame_not_posed [OF assms] split: sum.splits)

lemma example_bogus_run:
  "map_sum id exported
     (case os_makedirs example_world (join (dataset_dir example_self) [''meshes'', ''00032'', ''hips'', ''bogus'']) True of
        Inl e \<Rightarrow> Inl e
      | Inr w' \<Rightarrow>
          extract_frames example_self (join (dataset_dir example_self) [''meshes'', ''00032'', ''hips'', ''bogus'']) ''canonical''
            (glob w' (join (join (dataset_dir example_self) [''sequences'', ''00032'', ''hips'']) [''*.npz''])) w') =
   Inr [(''data/meshes/00032/hips/bogus/f1.obj'', Mesh example_v_cano (Arr example_faces))]"
  by (simp add: os_makedirs_def mkdir_def glob_def path_defs example_self_def example_world_def
      example_files_def extract_frame_def load_single_frame_def np_load_def getitem_def
      example_frame_def export_frame_def importable_def trimesh_export_def store_mesh_def
      write_file_def str_replace_def)

text \<open>
  Claim C10. The loop body takes the posed vertices only for the option \<^verbatim>\<open>posed\<close>; for
  every other string, \<^verbatim>\<open>canonical\<close> or not, each frame's mesh is built from \<open>v_cano\<close>. No
  option is rejected: the run is the run for \<^verbatim>\<open>canonical\<close>, directed at the output directory
  named by the option.
\<close>

theorem extract_mesh_seq_option:
  assumes "option \<noteq> ''posed''"
  shows "(load_single_frame self w fn = Inr (v_cano, v_posed, pose, transl) \<longrightarrow>
            extract_frame self mesh_dir option fn w =
              export_frame self w v_cano (join mesh_dir [str_replace (basename fn) ''npz'' ''obj''])) \<and>
         extract_frames self mesh_dir option fns w = extract_frames self mesh_dir ''canonical'' fns w \<and>
         extract_mesh_seq self subj seq_name option w =
           (case os_makedirs w (join (dataset_dir self) [''meshes'', subj, seq_name, option]) True of
              Inl e \<Rightarrow> Inl e
            | Inr w' \<Rightarrow>
                extract_frames self (join (dataset_dir self) [''meshes'', subj, seq_name, option]) ''canonical''
                  (glob w' (join (join (dataset_dir self) [''sequences'', subj, seq_name]) [''*.npz''])) w')"
proof (intro conjI impI)
  assume "load_single_frame self w fn = Inr (v_cano, v_posed, pose, transl)"
  then show "extract_frame self mesh_dir option fn w =
      export_frame self w v_cano (join mesh_dir [str_replace (basename fn) ''npz'' ''obj''])"
    using assms by (simp add: extract_frame_def)
next
  show "extract_frames self mesh_dir option fns w = extract_frames self mesh_dir ''canonical'' fns w"
    using assms by (rule extract_frames_not_posed)
next
  show "extract_mesh_seq self subj seq_name option w =
           (case os_makedirs w (join (dataset_dir self) [''meshes'', subj, seq_name, option]) True of
              Inl e \<Rightarrow> Inl e
            | Inr w' \<Rightarrow>
                extract_frames self (join (dataset_dir self) [''meshes'', subj, seq_name, option]) ''canonical''
                  (glob w' (join (join (dataset_dir self) [''sequences'', subj, seq_name]) [''*.npz''])) w')"
    by (simp add: extract_mesh_seq_def extract_frames_not_posed [OF assms] split: sum.splits)
qed

theorem extract_mesh_seq_option_witness:
  "''bogus'' \<noteq> ''posed'' \<and>
   map_sum id exported (extract_mesh_seq example_self ''00032'' ''hips'' ''bogus'' example_world) =
     Inr [(''data/meshes/00032/hips/bogus/f1.obj'', Mesh example_v_cano (Arr example_faces))]"
proof -
  have ne: "''bogus'' \<noteq> ''posed''" by simp
  from extract_mesh_seq_option [OF ne, of example_self example_world, THEN conjunct2, THEN conjunct2]
  have "extract_mesh_seq example_self ''00032'' ''hips'' ''bogus'' example_world =
     (case os_makedirs example_world (join (dataset_dir example_self) [''meshes'', ''00032'', ''hips'', ''bogus'']) True of
        Inl e \<Rightarrow> Inl e
      | Inr w' \<Rightarrow>
          extract_frames example_self (join (dataset_dir example_self) [''meshes'', ''00032'', ''hips'', ''bogus'']) ''canonical''
            (glob w' (join (join (dataset_dir example_self) [''sequences'', ''00032'', ''hips'']) [''*.npz''])) w')" .
  then show ?thesis using example_bogus_run ne by simp
qed

subsection \<open>Inspecting the overlap of scans and alignments\<close>

lemma store_mesh_result:
  assumes "store_mesh w p m = Inr w'"
  shows "exported w' = exported w @ [(p, m)] \<and> files w' (resolve p) = Some (File (Obj m))"
  using assms
  by (auto simp: store_mesh_def write_file_def
      split: sum.splits prod.splits if_splits option.splits node.splits)

lemma write_obj_result:
  assumes "write_obj w m p = Inr w'"
  shows "exported w' = exported w @ [(p, m)] \<and> files w' (resolve p) = Some (File (Obj m))"
proof (cases "dirname p \<noteq> [] \<and> \<not> exists w (dirname p)")
  case True
  then obtain w1 where mk: "os_makedirs w (dirname p) False = Inr w1"
    and st: "store_mesh w1 p m = Inr w'"
    using assms by (auto simp: write_obj_def split: sum.splits)
  have "exported w1 = exported w" using os_makedirs_world [OF mk] by simp
  then show ?thesis using store_mesh_result [OF st] by simp
next
  case False
  then have "store_mesh w p m = Inr w'" using assms by (auto simp: write_obj_def)
  then show ?thesis by (rule store_mesh_result)
qed

lemma colours_differ:
  "set_vertex_colors m1 \<lparr>shape = [3], elems = [0, 1, 0]\<rparr> \<noteq>
   set_vertex_colors m2 \<lparr>shape = [3], elems = [1, 0, 0]\<rparr>"
proof
  assume "set_vertex_colors m1 \<lparr>shape = [3], elems = [0, 1, 0]\<rparr> =
      set_vertex_colors m2 \<lparr>shape = [3], elems = [1, 0, 0]\<rparr>"
  then have "mesh_vc (set_vertex_colors m1 \<lparr>shape = [3], elems = [0, 1, 0]\<rparr>) =
      mesh_vc (set_vertex_colors m2 \<lparr>shape = [3], elems = [1, 0, 0]\<rparr>)" by simp
  then show False by (simp add: set_vertex_colors_def)
qed

lemma vis_overlap_frame_overwrites:
  assumes "vis_overlap_frame self subj seq_name aligns_list scans_list i w = Inr w'"
  shows "\<exists>scan d valign.
      Mesh_from_file w (scans_list ! i) = Inr scan \<and>
      np_load w (aligns_list ! i) = Inr d \<and> getitem d ''v_posed'' = Inr valign \<and>
      exported w' = exported w @
        [(join (join (dataset_dir self) [''scans'', subj, seq_name]) [format_02d i @ ''.png''],
          set_vertex_colors (Mesh (np_true_divide (mesh_v scan) 1000) (mesh_f scan))
            \<lparr>shape = [3], elems = [0, 1, 0]\<rparr>),
         (join (join (dataset_dir self) [''scans'', subj, seq_name]) [format_02d i @ ''.png''],
          set_vertex_colors (Mesh valign (faces self)) \<lparr>shape = [3], elems = [1, 0, 0]\<rparr>)] \<and>
      files w' (resolve (join (join (dataset_dir self) [''scans'', subj, seq_name]) [format_02d i @ ''.png''])) =
        Some (File (Obj (set_vertex_colors (Mesh valign (faces self)) \<lparr>shape = [3], elems = [1, 0, 0]\<rparr>))) \<and>
      files w' (resolve (join (join (dataset_dir self) [''scans'', subj, seq_name]) [format_02d i @ ''.png''])) \<noteq>
        Some (File (Obj (set_vertex_colors (Mesh (np_true_divide (mesh_v scan) 1000) (mesh_f scan))
            \<lparr>shape = [3], elems = [0, 1, 0]\<rparr>)))"
proof -
  let ?out = "join (join (dataset_dir self) [''scans'', subj, seq_name]) [format_02d i @ ''.png'']"
  from assms obtain scan d valign w1 where
    scan: "Mesh_from_file w (scans_list ! i) = Inr scan"
    and d: "np_load w (aligns_list ! i) = Inr d"
    and valign: "getitem d ''v_posed'' = Inr valign"
    and wr1: "write_obj w (set_vertex_colors (Mesh (np_true_divide (mesh_v scan) 1000) (mesh_f scan))
                \<lparr>shape = [3], elems = [0, 1, 0]\<rparr>) ?out = Inr w1"
    and wr2: "write_obj w1 (set_vertex_colors (Mesh valign (faces self)) \<lparr>shape = [3], elems = [1, 0, 0]\<rparr>) ?out = Inr w'"
    by (auto simp: vis_overlap_frame_def split: if_splits sum.splits)
  from write_obj_result [OF wr1] write_obj_result [OF wr2]
  have "exported w' = exported w @
        [(?out, set_vertex_colors (Mesh (np_true_divide (mesh_v scan) 1000) (mesh_f scan))
            \<lparr>shape = [3], elems = [0, 1, 0]\<rparr>),
         (?out, set_vertex_colors (Mesh valign (faces self)) \<lparr>shape = [3], elems = [1, 0, 0]\<rparr>)]"
    and "files w' (resolve ?out) =
        Some (File (Obj (set_vertex_colors (Mesh valign (faces self)) \<lparr>shape = [3], elems = [1, 0, 0]\<rparr>)))"
    by simp_all
  then show ?thesis using scan d valign colours_differ by fastforce
qed

lemma vis_overlap_frame_log:
  assumes "vis_overlap_frame self subj seq_name aligns_list scans_list i w = Inr w'"
  shows "\<exists>mscan malign. exported w' = exported w @
      [(join (join (dataset_dir self) [''scans'', subj, seq_name]) [format_02d i @ ''.png''], mscan),
       (join (join (dataset_dir self) [''scans'', subj, seq_name]) [format_02d i @ ''.png''], malign)]"
proof -
  from assms obtain m1 m2 w1 where
    wr1: "write_obj w m1 (join (join (dataset_dir self) [''scans'', subj, seq_name]) [format_02d i @ ''.png'']) = Inr w1"
    and wr2: "write_obj w1 m2 (join (join (dataset_dir self) [''scans'', subj, seq_name]) [format_02d i @ ''.png'']) = Inr w'"
    by (auto simp: vis_overlap_frame_def split: if_splits sum.splits)
  from write_obj_result [OF wr1] write_obj_result [OF wr2] show ?thesis by simp
qed

lemma vis_overlap_frames_log:
  assumes "vis_overlap_frames self subj seq_name aligns_list scans_list idx w = Inr w'"
  shows "\<exists>ms. length ms = length idx \<and>
     exported w' = exported w @
       concat (map2 (\<lambda>i (mscan, malign).
          [(join (join (dataset_dir self) [''scans'', subj, seq_name]) [format_02d i @ ''.png''], mscan),
           (join (join (dataset_dir self) [''scans'', subj, seq_name]) [format_02d i @ ''.png''], malign)])
         idx ms)"
  using assms
proof (induction idx arbitrary: w)
  case Nil
  then show ?case by simp
next
  case (Cons i idx)
  from Cons.prems obtain w1 where
    step: "vis_overlap_frame self subj seq_name aligns_list scans_list i w = Inr w1"
    and rest: "vis_overlap_frames self subj seq_name aligns_list scans_list idx w1 = Inr w'"
    by (auto split: sum.splits)
  from vis_overlap_frame_log [OF step] obtain mscan malign where
    one: "exported w1 = exported w @
      [(join (join (dataset_dir self) [''scans'', subj, seq_name]) [format_02d i @ ''.png''], mscan),
       (join (join (dataset_dir self) [''scans'', subj, seq_name]) [format_02d i @ ''.png''], malign)]"
    by blast
  from Cons.IH [OF rest] obtain ms where
    ms: "length ms = length idx"
    and more: "exported w' = exported w1 @
       concat (map2 (\<lambda>i (mscan, malign).
          [(join (join (dataset_dir self) [''scans'', subj, seq_name]) [format_02d i @ ''.png''], mscan),
           (join (join (dataset_dir self) [''scans'', subj, seq_name]) [format_02d i @ ''.png''], malign)])
         idx ms)"
    by blast
  show ?case
    by (rule exI [of _ "(mscan, malign) # ms"]) (simp add: ms more one)
qed

lemma format_02d_0: "format_02d 0 = ''00''"
  by (simp add: format_02d_def str_nat.simps [of 0] digit_def)

lemma example_overlap_frame:
  "\<exists>w'. vis_overlap_frame example_self ''00032'' ''hips''
         [''data/sequences/00032/hips/f1.npz''] [''data/raw_scans/00032/hips/f1.ply''] 0 example_world = Inr w'"
  by (simp add: vis_overlap_frame_def Mesh_from_file_def np_load_def getitem_def write_obj_def
      store_mesh_def write_file_def os_makedirs_def mkdir_def exists_def format_02d_0
      join_def join2_def startswith_def endswith_def resolve_def path_split_def dirname_def
      example_self_def example_world_def example_files_def example_frame_def)

lemma example_overlap_path:
  "join (join (dataset_dir example_self) [''scans'', ''00032'', ''hips'']) [format_02d 0 @ ''.png''] =
     ''data/scans/00032/hips/00.png''"
  by (simp add: format_02d_0 join_def join2_def startswith_def endswith_def example_self_def)

lemma example_overlap_inputs:
  "Mesh_from_file example_world ''data/raw_scans/00032/hips/f1.ply'' = Inr example_scan"
  "np_load example_world ''data/sequences/00032/hips/f1.npz'' = Inr (NpzFile example_frame)"
  "getitem (NpzFile example_frame) ''v_posed'' = Inr example_v_posed"
  "faces example_self = Arr example_faces"
  by (simp_all add: Mesh_from_file_def np_load_def getitem_def resolve_def startswith_def
      example_world_def example_files_def example_frame_def example_self_def)

lemma vis_overlap_log:
  assumes "vis_overlap self subj seq_name vis_num w = Inr w'"
  shows "\<exists>ms.
     length ms = length (py_take vis_num (permutation w
        (length (glob w (join (join (dataset_dir self) [''raw_scans'', subj, seq_name]) [''*.ply'']))))) \<and>
     exported w' = exported w @
       concat (map2 (\<lambda>i (mscan, malign).
          [(join (join (dataset_dir self) [''scans'', subj, seq_name]) [format_02d i @ ''.png''], mscan),
           (join (join (dataset_dir self) [''scans'', subj, seq_name]) [format_02d i @ ''.png''], malign)])
         (py_take vis_num (permutation w
            (length (glob w (join (join (dataset_dir self) [''raw_scans'', subj, seq_name]) [''*.ply''])))))
         ms)"
proof -
  from assms have "vis_overlap_frames self subj seq_name
      (sort (glob w (join (join (dataset_dir self) [''sequences'', subj, seq_name]) [''*.npz''])))
      (sort (glob w (join (join (dataset_dir self) [''raw_scans'', subj, seq_name]) [''*.ply''])))
      (py_take vis_num (permutation w
         (length (glob w (join (join (dataset_dir self) [''raw_scans'', subj, seq_name]) [''*.ply''])))))
      w = Inr w'"
    by (simp add: vis_overlap_def split: if_splits)
  then show ?thesis by (rule vis_overlap_frames_log)
qed

lemma example_overlap_run:
  "vis_overlap example_self ''00032'' ''hips'' 5 example_world =
   vis_overlap_frames example_self ''00032'' ''hips''
     [''data/sequences/00032/hips/f1.npz''] [''data/raw_scans/00032/hips/f1.ply''] [0] example_world"
  by (simp add: vis_overlap_def importable_def glob_def py_take_def path_defs
      example_self_def example_world_def example_files_def)

lemma example_overlap_idx:
  "py_take 5 (permutation example_world
     (length (glob example_world
        (join (join (dataset_dir example_self) [''raw_scans'', ''00032'', ''hips'']) [''*.ply''])))) = [0]"
  by (simp add: glob_def py_take_def path_defs example_self_def example_world_def example_files_def)

text \<open>
  Claim C8. For the inspected index \<open>i\<close>, the scan mesh and the alignment mesh are both
  written to \<^verbatim>\<open>scans/<subj>/<seq_name>/<i, two digits>.png\<close> under the dataset directory.
  After the iteration that file holds the alignment mesh and not the scan mesh; over a
  whole call of \<^verbatim>\<open>vis_overlap\<close> the meshes handed to the mesh library come in pairs with
  one file name, a pair for each index drawn.
\<close>

theorem vis_overlap_same_file:
  "(vis_overlap_frame self subj seq_name aligns_list scans_list i w = Inr w' \<longrightarrow>
      (\<exists>scan d valign.
         Mesh_from_file w (scans_list ! i) = Inr scan \<and>
         np_load w (aligns_list ! i) = Inr d \<and> getitem d ''v_posed'' = Inr valign \<and>
         exported w' = exported w @
           [(join (join (dataset_dir self) [''scans'', subj, seq_name]) [format_02d i @ ''.png''],
             set_vertex_colors (Mesh (np_true_divide (mesh_v scan) 1000) (mesh_f scan))
               \<lparr>shape = [3], elems = [0, 1, 0]\<rparr>),
            (join (join (dataset_dir self) [''scans'', subj, seq_name]) [format_02d i @ ''.png''],
             set_vertex_colors (Mesh valign (faces self)) \<lparr>shape = [3], elems = [1, 0, 0]\<rparr>)] \<and>
         files w' (resolve (join (join (dataset_dir self) [''scans'', subj, seq_name]) [format_02d i @ ''.png''])) =
           Some (File (Obj (set_vertex_colors (Mesh valign (faces self)) \<lparr>shape = [3], elems = [1, 0, 0]\<rparr>))) \<and>
         files w' (resolve (join (join (dataset_dir self) [''scans'', subj, seq_name]) [format_02d i @ ''.png''])) \<noteq>
           Some (File (Obj (set_vertex_colors (Mesh (np_true_divide (mesh_v scan) 1000) (mesh_f scan))
               \<lparr>shape = [3], elems = [0, 1, 0]\<rparr>))))) \<and>
   (vis_overlap self subj seq_name vis_num w = Inr w'' \<longrightarrow>
      (\<exists>ms.
         length ms = length (py_take vis_num (permutation w
            (length (glob w (join (join (dataset_dir self) [''raw_scans'', subj, seq_name]) [''*.ply'']))))) \<and>
         exported w'' = exported w @
           concat (map2 (\<lambda>i (mscan, malign).
              [(join (join (dataset_dir self) [''scans'', subj, seq_name]) [format_02d i @ ''.png''], mscan),
               (join (join (dataset_dir self) [''scans'', subj, seq_name]) [format_02d i @ ''.png''], malign)])
             (py_take vis_num (permutation w
                (length (glob w (join (join (dataset_dir self) [''raw_scans'', subj, seq_name]) [''*.ply''])))))
             ms)))"
  using vis_overlap_frame_overwrites [of self subj seq_name aligns_list scans_list i w w']
    vis_overlap_log [of self subj seq_name vis_num w w'']
  by blast

theorem vis_overlap_same_file_witness:
  "\<exists>w'. vis_overlap_frame example_self ''00032'' ''hips''
          [''data/sequences/00032/hips/f1.npz''] [''data/raw_scans/00032/hips/f1.ply''] 0 example_world = Inr w' \<and>
     vis_overlap example_self ''00032'' ''hips'' 5 example_world = Inr w' \<and>
     map fst (exported w') = [''data/scans/00032/hips/00.png'', ''data/scans/00032/hips/00.png''] \<and>
     files w' (resolve ''data/scans/00032/hips/00.png'') =
       Some (File (Obj (set_vertex_colors (Mesh example_v_posed (Arr example_faces))
          \<lparr>shape = [3], elems = [1, 0, 0]\<rparr>))) \<and>
     length (exported w') = 2"
proof -
  from example_overlap_frame obtain w' where
    fr: "vis_overlap_frame example_self ''00032'' ''hips''
          [''data/sequences/00032/hips/f1.npz''] [''data/raw_scans/00032/hips/f1.ply''] 0 example_world = Inr w'"
    by (rule exE)
  then have run: "vis_overlap example_self ''00032'' ''hips'' 5 example_world = Inr w'"
    by (simp add: example_overlap_run)
  have none_exported: "exported example_world = []"
    by (simp add: example_world_def)
  note inst = vis_overlap_same_file [of example_self "''00032''" "''hips''"
      "[''data/sequences/00032/hips/f1.npz'']" "[''data/raw_scans/00032/hips/f1.ply'']" 0 example_world w'
      5 w']
  note body = inst [THEN conjunct1, rule_format, OF fr]
  note whole = inst [THEN conjunct2, rule_format, OF run]
  have names: "map fst (exported w') = [''data/scans/00032/hips/00.png'', ''data/scans/00032/hips/00.png'']"
    using body
  proof (elim exE conjE)
    fix scan d valign
    assume log: "exported w' = exported example_world @
        [(join (join (dataset_dir example_self) [''scans'', ''00032'', ''hips'']) [format_02d 0 @ ''.png''],
          set_vertex_colors (Mesh (np_true_divide (mesh_v scan) 1000) (mesh_f scan))
            \<lparr>shape = [3], elems = [0, 1, 0]\<rparr>),
         (join (join (dataset_dir example_self) [''scans'', ''00032'', ''hips'']) [format_02d 0 @ ''.png''],
          set_vertex_colors (Mesh valign (faces example_self)) \<lparr>shape = [3], elems = [1, 0, 0]\<rparr>)]"
    show ?thesis
      unfolding log example_overlap_path by (simp add: none_exported)
  qed
  have stored: "files w' (resolve ''data/scans/00032/hips/00.png'') =
       Some (File (Obj (set_vertex_colors (Mesh example_v_posed (Arr example_faces))
          \<lparr>shape = [3], elems = [1, 0, 0]\<rparr>)))"
    using body
  proof (elim exE conjE)
    fix scan d valign
    assume d: "np_load example_world ([''data/sequences/00032/hips/f1.npz''] ! 0) = Inr d"
      and valign: "getitem d ''v_posed'' = Inr valign"
      and st: "files w' (resolve (join (join (dataset_dir example_self) [''scans'', ''00032'', ''hips''])
                 [format_02d 0 @ ''.png''])) =
           Some (File (Obj (set_vertex_colors (Mesh valign (faces example_self))
              \<lparr>shape = [3], elems = [1, 0, 0]\<rparr>)))"
    have "d = NpzFile example_frame"
      using d by (simp add: example_overlap_inputs)
    then have "valign = example_v_posed"
      using valign by (simp add: example_overlap_inputs)
    then show ?thesis
      using st by (simp only: example_overlap_path example_overlap_inputs)
  qed
  have len: "length (exported w') = 2"
    using whole unfolding example_overlap_idx
  proof (elim exE conjE)
    fix ms :: "(mesh \<times> mesh) list"
    assume one: "length ms = length [0::nat]"
      and log: "exported w' = exported example_world @
           concat (map2 (\<lambda>i (mscan, malign).
              [(join (join (dataset_dir example_self) [''scans'', ''00032'', ''hips'']) [format_02d i @ ''.png''], mscan),
               (join (join (dataset_dir example_self) [''scans'', ''00032'', ''hips'']) [format_02d i @ ''.png''], malign)])
             [0] ms)"
    from one obtain m where ms: "ms = [m]"
      by (cases ms) simp_all
    show ?thesis
      unfolding log ms by (simp add: none_exported split: prod.splits)
  qed
  show ?thesis
    by (rule exI [of _ w']) (intro conjI fr run names stored len)
qed

end
